theory Spec2Isabelle
  imports Complex_Main
begin

section \<open>JavaScript values\<close>

text \<open>
  The token file is read with \<^verbatim>\<open>JSON.parse(data) as TokenData\<close>, an unchecked cast, and
  the session exchange returns \<^verbatim>\<open>any\<close>. What the code handles at run time is therefore
  an arbitrary JavaScript value, and the code tests it by truthiness. Objects are kept as
  the list of their own properties in insertion order.
\<close>

datatype number = Finite rat | PosInfinity | NegInfinity | NaN

datatype jsval =
    JUndefined
  | JNull
  | JBool bool
  | JNum number
  | JStr string
  | JArr "jsval list"
  | JObj "(string \<times> jsval) list"

text \<open>\<^verbatim>\<open>!v\<close> is \<open>\<not> truthy v\<close> (ToBoolean).\<close>

fun truthy :: "jsval \<Rightarrow> bool" where
  "truthy JUndefined = False"
| "truthy JNull = False"
| "truthy (JBool b) = b"
| "truthy (JNum n) = (n \<noteq> Finite 0 \<and> n \<noteq> NaN)"
| "truthy (JStr s) = (s \<noteq> [])"
| "truthy (JArr xs) = True"
| "truthy (JObj ps) = True"

text \<open>
  Reading a property named like a token field. On \<^verbatim>\<open>null\<close> and \<^verbatim>\<open>undefined\<close> the read
  throws a TypeError (\<open>nullish\<close>, tested by the callers before \<open>read_prop\<close>); on an object it is
  the own property or \<^verbatim>\<open>undefined\<close>; primitives and arrays have no property of such a
  name.
\<close>

definition nullish :: "jsval \<Rightarrow> bool" where
  "nullish v = (v = JUndefined \<or> v = JNull)"

fun read_prop :: "jsval \<Rightarrow> string \<Rightarrow> jsval" where
  "read_prop (JObj ps) k = (case map_of ps k of None \<Rightarrow> JUndefined | Some v \<Rightarrow> v)"
| "read_prop v k = JUndefined"

text \<open>
  \<^verbatim>\<open>{ ...obj, k: v }\<close>: the property keeps its place when the object has it already and is
  appended otherwise.
\<close>

fun set_prop :: "string \<Rightarrow> jsval \<Rightarrow> (string \<times> jsval) list \<Rightarrow> (string \<times> jsval) list" where
  "set_prop k v [] = [(k, v)]"
| "set_prop k v ((k', v') # ps) = (if k' = k then (k, v) # ps else (k', v') # set_prop k v ps)"

text \<open>
  What a \<^verbatim>\<open>throw\<close> carries: an instance of \<^verbatim>\<open>Error\<close> with its message, or any other value
  (only the external session exchange can reject with one).
\<close>

datatype thrown = ErrorInst string | NonError

datatype 'a outcome = Returns 'a | Throws thrown

text \<open>\<^verbatim>\<open>error instanceof Error ? error.message : 'Unknown error'\<close>\<close>

fun message_of :: "thrown \<Rightarrow> string" where
  "message_of (ErrorInst m) = m"
| "message_of NonError = ''Unknown error''"

text \<open>
  The built-ins of the JavaScript runtime that the code calls are parameters of the model:
  \<^item> \<open>Date_value v\<close> is the time value in milliseconds of \<^verbatim>\<open>new Date(v)\<close>, \<open>None\<close> for an
    Invalid Date (time value NaN);
  \<^item> \<open>toISOString t\<close> is \<^verbatim>\<open>new Date().toISOString()\<close> when the clock reads \<open>t\<close>;
  \<^item> \<open>JSON_stringify v\<close> is \<^verbatim>\<open>JSON.stringify(v, null, 2)\<close>;
  \<^item> \<open>JSON_parse s\<close> is \<^verbatim>\<open>JSON.parse(s)\<close>, which throws a SyntaxError on malformed text;
  \<^item> \<open>TypeError_message\<close> is the engine's message for a property read on
    \<^verbatim>\<open>null\<close> or \<^verbatim>\<open>undefined\<close>.
\<close>

record runtime =
  Date_value :: "jsval \<Rightarrow> int option"
  toISOString :: "int \<Rightarrow> string"
  JSON_stringify :: "jsval \<Rightarrow> string"
  JSON_parse :: "string \<Rightarrow> jsval outcome"
  TypeError_message :: string

section \<open>The token file\<close>

text \<open>
  The part of the file system that \<^verbatim>\<open>TokenManager\<close> touches: whether the directory of
  \<^verbatim>\<open>tokenFile\<close> exists, the text of \<^verbatim>\<open>tokenFile\<close> (\<open>None\<close> when \<^verbatim>\<open>fs.existsSync\<close> is
  false), and for each call that can throw (\<^verbatim>\<open>mkdirSync\<close>, \<^verbatim>\<open>writeFileSync\<close>,
  \<^verbatim>\<open>readFileSync\<close>, \<^verbatim>\<open>unlinkSync\<close>) the message of the error it throws, if the operating
  system refuses it.
\<close>

record filesystem =
  dir_exists :: bool
  content :: "string option"
  mkdir_fault :: "string option"
  write_fault :: "string option"
  read_fault :: "string option"
  unlink_fault :: "string option"

section \<open>TokenManager\<close>

text \<open>
  \<^verbatim>\<open>completeTokenData\<close> of \<^verbatim>\<open>saveToken\<close>:
  \<^verbatim>\<open>{ ...tokenData, generated_at: tokenData.generated_at || new Date().toISOString() }\<close>.
\<close>

definition completeTokenData :: "runtime \<Rightarrow> int \<Rightarrow> (string \<times> jsval) list \<Rightarrow> (string \<times> jsval) list" where
  "completeTokenData rt now tokenData =
     set_prop ''generated_at''
       (if truthy (read_prop (JObj tokenData) ''generated_at'')
        then read_prop (JObj tokenData) ''generated_at''
        else JStr (toISOString rt now))
       tokenData"

text \<open>
  \<^verbatim>\<open>fs.writeFileSync(this.tokenFile, data)\<close>: the file is created or replaced.
  \<^verbatim>\<open>saveToken\<close> calls it once the directory exists.
\<close>

definition writeFileSync :: "string \<Rightarrow> filesystem \<Rightarrow> unit outcome \<times> filesystem" where
  "writeFileSync data fs =
     (case write_fault fs of
        Some m \<Rightarrow> (Throws (ErrorInst m), fs)
      | None \<Rightarrow> (Returns (), fs\<lparr>content := Some data\<rparr>))"

text \<open>
  The \<^verbatim>\<open>try\<close> block of \<^verbatim>\<open>saveToken\<close>: the directory is created when missing, then the
  file is written. The state is returned also when a call throws (a created directory
  stays).
\<close>

definition saveToken_try :: "runtime \<Rightarrow> int \<Rightarrow> (string \<times> jsval) list \<Rightarrow> filesystem \<Rightarrow> unit outcome \<times> filesystem" where
  "saveToken_try rt now tokenData fs =
     (let data = JSON_stringify rt (JObj (completeTokenData rt now tokenData)) in
      if dir_exists fs then writeFileSync data fs
      else
        (case mkdir_fault fs of
           Some m \<Rightarrow> (Throws (ErrorInst m), fs)
         | None \<Rightarrow> writeFileSync data (fs\<lparr>dir_exists := True\<rparr>)))"

definition saveToken :: "runtime \<Rightarrow> int \<Rightarrow> (string \<times> jsval) list \<Rightarrow> filesystem \<Rightarrow> unit outcome \<times> filesystem" where
  "saveToken rt now tokenData fs =
     (case saveToken_try rt now tokenData fs of
        (Throws e, fs') \<Rightarrow> (Throws (ErrorInst (''Failed to save token: '' @ message_of e)), fs')
      | (Returns u, fs') \<Rightarrow> (Returns u, fs'))"

text \<open>
  The \<^verbatim>\<open>try\<close> block of \<^verbatim>\<open>loadToken\<close>. \<open>Returns None\<close> is the early \<^verbatim>\<open>return null\<close> for a
  missing file.
\<close>

definition loadToken_try :: "runtime \<Rightarrow> filesystem \<Rightarrow> jsval option outcome" where
  "loadToken_try rt fs =
     (case content fs of
        None \<Rightarrow> Returns None
      | Some data \<Rightarrow>
          (case read_fault fs of
             Some m \<Rightarrow> Throws (ErrorInst m)
           | None \<Rightarrow>
               (case JSON_parse rt data of
                  Throws e \<Rightarrow> Throws e
                | Returns tokenData \<Rightarrow>
                    if nullish tokenData then Throws (ErrorInst (TypeError_message rt))
                    else if \<not> truthy (read_prop tokenData ''access_token'')
                          \<or> \<not> truthy (read_prop tokenData ''user_id'')
                          \<or> \<not> truthy (read_prop tokenData ''generated_at'')
                    then Throws (ErrorInst ''Invalid token data structure'')
                    else Returns (Some tokenData))))"

text \<open>The \<^verbatim>\<open>catch\<close> clause logs and returns \<^verbatim>\<open>null\<close>, whatever was thrown.\<close>

definition loadToken :: "runtime \<Rightarrow> filesystem \<Rightarrow> jsval option" where
  "loadToken rt fs = (case loadToken_try rt fs of Throws e \<Rightarrow> None | Returns r \<Rightarrow> r)"

text \<open>
  \<^verbatim>\<open>validateTokenExpiry\<close>, a private method that \<^verbatim>\<open>isTokenValid\<close> calls on a loaded
  record, which is not \<^verbatim>\<open>null\<close>. A comparison with NaN is false, so an Invalid Date makes
  either branch false. Time values are integral milliseconds; \<open>diffHours\<close> is computed
  here as an exact quotient. The source computes it in double precision, which decides
  \<^verbatim>\<open>diffHours < 5\<close> the same way: rounding is monotone, 5 is a double, and a quotient of
  an integer by 3600000 that is below 5 is below it by at least 1/3600000.
\<close>

definition validateTokenExpiry :: "runtime \<Rightarrow> int \<Rightarrow> jsval \<Rightarrow> bool" where
  "validateTokenExpiry rt now tokenData =
     (if truthy (read_prop tokenData ''expires_at'')
      then (case Date_value rt (read_prop tokenData ''expires_at'') of
              None \<Rightarrow> False
            | Some expiresAt \<Rightarrow> now < expiresAt)
      else (case Date_value rt (read_prop tokenData ''generated_at'') of
              None \<Rightarrow> False
            | Some generatedAt \<Rightarrow>
                (let diffHours = (of_int (now - generatedAt) :: rat) / (1000 * 60 * 60)
                 in diffHours < 5)))"

definition isTokenValid :: "runtime \<Rightarrow> int \<Rightarrow> filesystem \<Rightarrow> bool" where
  "isTokenValid rt now fs =
     (case loadToken rt fs of
        None \<Rightarrow> False
      | Some tokenData \<Rightarrow> validateTokenExpiry rt now tokenData)"

text \<open>\<^verbatim>\<open>clearToken\<close>: \<^verbatim>\<open>unlinkSync\<close> is called only when the file exists; its error is rethrown wrapped.\<close>

definition clearToken :: "filesystem \<Rightarrow> unit outcome \<times> filesystem" where
  "clearToken fs =
     (case content fs of
        None \<Rightarrow> (Returns (), fs)
      | Some data \<Rightarrow>
          (case unlink_fault fs of
             Some m \<Rightarrow> (Throws (ErrorInst (''Failed to clear token: '' @ m)), fs)
           | None \<Rightarrow> (Returns (), fs\<lparr>content := None\<rparr>)))"

section \<open>OAuthServer\<close>

text \<open>
  A request is seen through \<^verbatim>\<open>new URL(req.url)\<close>: its path and its query parameters in
  order. \<^verbatim>\<open>url.searchParams.get(name)\<close> is the first value of that name, or \<^verbatim>\<open>null\<close>.
\<close>

record url =
  pathname :: string
  searchParams :: "(string \<times> string) list"

definition searchParams_get :: "url \<Rightarrow> string \<Rightarrow> string option" where
  "searchParams_get u name = map_of (searchParams u) name"

text \<open>\<^verbatim>\<open>url.searchParams.get('error_type') || 'OAuth callback failed'\<close>\<close>

definition callback_error :: "url \<Rightarrow> string" where
  "callback_error u =
     (case searchParams_get u ''error_type'' of
        None \<Rightarrow> ''OAuth callback failed''
      | Some e \<Rightarrow> if e = [] then ''OAuth callback failed'' else e)"

text \<open>
  The \<^verbatim>\<open>try\<close> block of \<^verbatim>\<open>handleOAuthCallback\<close>. \<open>generateSession\<close> is the external
  session exchange of \<^verbatim>\<open>kiteconnect\<close>, called with the request token and the API secret:
  it resolves with a value or rejects. Reading a field of a \<^verbatim>\<open>null\<close> or \<^verbatim>\<open>undefined\<close>
  response throws a TypeError. The object literal has exactly five properties.
  \<^verbatim>\<open>saveToken\<close> finds \<^verbatim>\<open>generated_at\<close> set and reads the clock again only if that string
  were empty; both readings are \<open>now\<close> here.
\<close>

definition callback_try ::
  "runtime \<Rightarrow> (string \<Rightarrow> string \<Rightarrow> jsval outcome) \<Rightarrow> string \<Rightarrow> int \<Rightarrow> string \<Rightarrow> filesystem
     \<Rightarrow> jsval outcome \<times> filesystem" where
  "callback_try rt generateSession apiSecret now requestToken fs =
     (case generateSession requestToken apiSecret of
        Throws e \<Rightarrow> (Throws e, fs)
      | Returns response \<Rightarrow>
          if nullish response then (Throws (ErrorInst (TypeError_message rt)), fs)
          else
            (let tokenData =
                   [(''access_token'', read_prop response ''access_token''),
                    (''refresh_token'', read_prop response ''refresh_token''),
                    (''user_id'', read_prop response ''user_id''),
                    (''user_name'', read_prop response ''user_name''),
                    (''generated_at'', JStr (toISOString rt now))]
             in case saveToken rt now tokenData fs of
                  (Throws e, fs') \<Rightarrow> (Throws e, fs')
                | (Returns u, fs') \<Rightarrow> (Returns (JObj tokenData), fs')))"

text \<open>
  \<^verbatim>\<open>handleOAuthCallback\<close>. Every exception that leaves it is a \<^verbatim>\<open>new Error(message)\<close>:
  \<open>Inl message\<close>. The first test, \<^verbatim>\<open>status !== 'success' || !requestToken\<close>, stands before
  the \<^verbatim>\<open>try\<close>, so its error is not wrapped; a missing and an empty request token are both
  falsy.
\<close>

definition handleOAuthCallback ::
  "runtime \<Rightarrow> (string \<Rightarrow> string \<Rightarrow> jsval outcome) \<Rightarrow> string \<Rightarrow> int \<Rightarrow> url \<Rightarrow> filesystem
     \<Rightarrow> (string + jsval) \<times> filesystem" where
  "handleOAuthCallback rt generateSession apiSecret now u fs =
     (let requestToken = searchParams_get u ''request_token'';
          status = searchParams_get u ''status''
      in case requestToken of
           None \<Rightarrow> (Inl (callback_error u), fs)
         | Some t \<Rightarrow>
             if status \<noteq> Some ''success'' \<or> t = [] then (Inl (callback_error u), fs)
             else
               (case callback_try rt generateSession apiSecret now t fs of
                  (Throws e, fs') \<Rightarrow> (Inl (''Session generation failed: '' @ message_of e), fs')
                | (Returns tokenData, fs') \<Rightarrow> (Inr tokenData, fs')))"

text \<open>
  One authentication flow: \<^verbatim>\<open>this.server\<close> (whether a listener is running), the promise
  that \<^verbatim>\<open>startAuthFlow\<close> returned, the five-minute timer behind \<^verbatim>\<open>timeoutId\<close>, the
  one-second shutdown timers that handlers have scheduled and that have not run yet, and
  the token file.
\<close>

datatype settlement = Pending | Resolved jsval | Rejected thrown

datatype timer = Unset | Armed nat | Cancelled | Fired

record flow =
  server :: bool
  promise :: settlement
  timeoutId :: timer
  shutdown_timers :: nat
  store :: filesystem

text \<open>\<^verbatim>\<open>resolve\<close> and \<^verbatim>\<open>reject\<close> of a promise act only while it is pending.\<close>

definition resolve :: "jsval \<Rightarrow> flow \<Rightarrow> flow" where
  "resolve v s = (if promise s = Pending then s\<lparr>promise := Resolved v\<rparr> else s)"

definition reject :: "thrown \<Rightarrow> flow \<Rightarrow> flow" where
  "reject e s = (if promise s = Pending then s\<lparr>promise := Rejected e\<rparr> else s)"

text \<open>
  \<^verbatim>\<open>if (timeoutId) clearTimeout(timeoutId)\<close>: nothing happens while \<^verbatim>\<open>timeoutId\<close> is
  \<^verbatim>\<open>null\<close>, nor for a timer that has run or is cancelled already.
\<close>

definition clearTimeout :: "timer \<Rightarrow> timer" where
  "clearTimeout t = (case t of Armed d \<Rightarrow> Cancelled | Unset \<Rightarrow> Unset | Cancelled \<Rightarrow> Cancelled | Fired \<Rightarrow> Fired)"

definition cleanupAndResolve :: "jsval \<Rightarrow> flow \<Rightarrow> flow" where
  "cleanupAndResolve v s = resolve v (s\<lparr>timeoutId := clearTimeout (timeoutId s)\<rparr>)"

definition cleanupAndReject :: "thrown \<Rightarrow> flow \<Rightarrow> flow" where
  "cleanupAndReject e s = reject e (s\<lparr>timeoutId := clearTimeout (timeoutId s)\<rparr>)"

text \<open>\<^verbatim>\<open>setTimeout(() => { if (this.server) { this.server.stop(); this.server = null } }, 1000)\<close>\<close>

definition schedule_shutdown :: "flow \<Rightarrow> flow" where
  "schedule_shutdown s = s\<lparr>shutdown_timers := Suc (shutdown_timers s)\<rparr>"

record response =
  status :: nat
  body :: string

text \<open>The two pictographs of the response texts, as their UTF-8 bytes.\<close>

definition check_mark :: string where
  "check_mark = [CHR 0xE2, CHR 0x9C, CHR 0x85]"

definition cross_mark :: string where
  "cross_mark = [CHR 0xE2, CHR 0x9D, CHR 0x8C]"

text \<open>\<^verbatim>\<open>`${error}`\<close> for an \<^verbatim>\<open>Error\<close> with the given message.\<close>

definition Error_toString :: "string \<Rightarrow> string" where
  "Error_toString m = (if m = [] then ''Error'' else ''Error: '' @ m)"

text \<open>
  The \<^verbatim>\<open>fetch\<close> handler of the listener. It reads and writes nothing of the flow before
  \<^verbatim>\<open>await this.handleOAuthCallback(url)\<close> returns, so it is one step on the state in which
  the awaited call completes. A response without \<^verbatim>\<open>status\<close> has status 200.
\<close>

definition fetch ::
  "runtime \<Rightarrow> (string \<Rightarrow> string \<Rightarrow> jsval outcome) \<Rightarrow> string \<Rightarrow> int \<Rightarrow> flow \<Rightarrow> url
     \<Rightarrow> flow \<times> response" where
  "fetch rt generateSession apiSecret now s u =
     (if pathname u = ''/zerodha/auth/redirect'' then
        (case handleOAuthCallback rt generateSession apiSecret now u (store s) of
           (Inr tokenData, fs') \<Rightarrow>
             (schedule_shutdown (cleanupAndResolve tokenData (s\<lparr>store := fs'\<rparr>)),
              \<lparr>status = 200,
               body = check_mark @ '' Authentication successful! Token saved. You can close this window.''\<rparr>)
         | (Inl m, fs') \<Rightarrow>
             (schedule_shutdown (cleanupAndReject (ErrorInst m) (s\<lparr>store := fs'\<rparr>)),
              \<lparr>status = 500,
               body = cross_mark @ '' Authentication failed: '' @ Error_toString m\<rparr>))
      else
        (s, \<lparr>status = 200, body = ''Kite OAuth Server - Waiting for callback...''\<rparr>))"

text \<open>
  \<^verbatim>\<open>startAuthFlow\<close> creates the promise, opens the listener and arms the timer with
  \<^verbatim>\<open>5 * 60 * 1000\<close> milliseconds. When \<^verbatim>\<open>Bun.serve\<close> throws (\<open>listen_fault\<close>, a port in use),
  the exception leaves the promise's executor: the promise is rejected with it and no
  timer is set.
\<close>

definition startAuthFlow :: "string option \<Rightarrow> flow \<Rightarrow> flow" where
  "startAuthFlow listen_fault s =
     (case listen_fault of
        Some m \<Rightarrow> s\<lparr>promise := Rejected (ErrorInst m), timeoutId := Unset\<rparr>
      | None \<Rightarrow> s\<lparr>server := True, promise := Pending, timeoutId := Armed (5 * 60 * 1000)\<rparr>)"

text \<open>
  \<^verbatim>\<open>if (this.server) { this.server.stop(); this.server = null }\<close>, the body of \<^verbatim>\<open>stop()\<close>
  and of both kinds of timer callback.
\<close>

definition stop :: "flow \<Rightarrow> flow" where
  "stop s = (if server s then s\<lparr>server := False\<rparr> else s)"

text \<open>The callback of the five-minute timer: the listener is stopped, then the promise rejected.\<close>

definition timeout_callback :: "flow \<Rightarrow> flow" where
  "timeout_callback s =
     cleanupAndReject
       (ErrorInst ''Authentication timeout - no callback received within 5 minutes'')
       (stop s)"

text \<open>
  What can happen to a flow, one event at a time as on the event loop: a request's handler
  completes (with the exchange that answers it and the clock's reading), the runtime
  runs the five-minute timer's callback, it runs a shutdown timer's callback, or
  \<^verbatim>\<open>stop()\<close> is called. The runtime runs a timer's callback only while the timer is armed,
  and once.
\<close>

datatype event =
    Request url "string \<Rightarrow> string \<Rightarrow> jsval outcome" int
  | TimeoutFires
  | ShutdownFires
  | Stop

fun step :: "runtime \<Rightarrow> string \<Rightarrow> flow \<Rightarrow> event \<Rightarrow> flow" where
  "step rt apiSecret s (Request u generateSession now) = fst (fetch rt generateSession apiSecret now s u)"
| "step rt apiSecret s TimeoutFires =
     (case timeoutId s of
        Armed d \<Rightarrow> timeout_callback (s\<lparr>timeoutId := Fired\<rparr>)
      | Unset \<Rightarrow> s | Cancelled \<Rightarrow> s | Fired \<Rightarrow> s)"
| "step rt apiSecret s ShutdownFires =
     (if shutdown_timers s = 0 then s
      else stop (s\<lparr>shutdown_timers := shutdown_timers s - 1\<rparr>))"
| "step rt apiSecret s Stop = stop s"

definition run :: "runtime \<Rightarrow> string \<Rightarrow> flow \<Rightarrow> event list \<Rightarrow> flow" where
  "run rt apiSecret s es = foldl (step rt apiSecret) s es"

section \<open>Notions of the specification\<close>

text \<open>The fields of the \<^verbatim>\<open>TokenData\<close> interface.\<close>

definition token_fields :: "string list" where
  "token_fields =
     [''access_token'', ''refresh_token'', ''user_id'', ''user_name'', ''generated_at'', ''expires_at'']"

text \<open>
  What the round trip through the file needs of the runtime: parsing the text that
  \<^verbatim>\<open>JSON.stringify\<close> made of a value gives a value with the same token fields (a field
  that is \<^verbatim>\<open>undefined\<close> is left out of the text and read back as \<^verbatim>\<open>undefined\<close>).
\<close>

definition json_keeps_fields :: "runtime \<Rightarrow> jsval \<Rightarrow> bool" where
  "json_keeps_fields rt v =
     (case JSON_parse rt (JSON_stringify rt v) of
        Throws e \<Rightarrow> False
      | Returns w \<Rightarrow> list_all (\<lambda>k. read_prop w k = read_prop v k) token_fields)"

text \<open>A request on the callback path.\<close>

definition callback_request :: "event \<Rightarrow> bool" where
  "callback_request e =
     (case e of
        Request u generateSession now \<Rightarrow> pathname u = ''/zerodha/auth/redirect''
      | TimeoutFires \<Rightarrow> False
      | ShutdownFires \<Rightarrow> False
      | Stop \<Rightarrow> False)"

section \<open>Sample data\<close>

text \<open>
  Concrete inputs on which the theorems below are instantiated. \<open>sample_runtime\<close> agrees
  with the built-ins on the values used here: two ISO timestamps and their time values,
  and five JSON texts and the values they denote. Any other string is not a date and any
  other text is not JSON for it.
\<close>

definition quoted :: "string \<Rightarrow> string" where
  "quoted s = [CHR 0x22] @ s @ [CHR 0x22]"

definition json_member :: "string \<Rightarrow> string \<Rightarrow> string" where
  "json_member k v = quoted k @ '': '' @ quoted v"

definition sample_stored :: "(string \<times> jsval) list" where
  "sample_stored =
     [(''access_token'', JStr ''tok''),
      (''refresh_token'', JStr []),
      (''user_id'', JStr ''AB1234''),
      (''user_name'', JStr ''Asha''),
      (''generated_at'', JStr ''2024-01-01T00:00:00.000Z'')]"

text \<open>A record as \<^verbatim>\<open>saveToken\<close> receives it, without \<^verbatim>\<open>generated_at\<close>.\<close>

definition sample_token :: "(string \<times> jsval) list" where
  "sample_token =
     [(''access_token'', JStr ''tok''),
      (''refresh_token'', JStr []),
      (''user_id'', JStr ''AB1234''),
      (''user_name'', JStr ''Asha'')]"

definition sample_text :: string where
  "sample_text =
     ''{'' @ [CHR 0x0A]
     @ ''  '' @ json_member ''access_token'' ''tok'' @ '','' @ [CHR 0x0A]
     @ ''  '' @ json_member ''refresh_token'' [] @ '','' @ [CHR 0x0A]
     @ ''  '' @ json_member ''user_id'' ''AB1234'' @ '','' @ [CHR 0x0A]
     @ ''  '' @ json_member ''user_name'' ''Asha'' @ '','' @ [CHR 0x0A]
     @ ''  '' @ json_member ''generated_at'' ''2024-01-01T00:00:00.000Z'' @ [CHR 0x0A]
     @ ''}''"

definition sample_expiring :: "(string \<times> jsval) list" where
  "sample_expiring =
     [(''access_token'', JStr ''tok''),
      (''user_id'', JStr ''AB1234''),
      (''generated_at'', JStr ''not a date''),
      (''expires_at'', JStr ''2999-01-01T00:00:00.000Z'')]"

definition expiring_text :: string where
  "expiring_text =
     ''{'' @ json_member ''access_token'' ''tok'' @ '', ''
     @ json_member ''user_id'' ''AB1234'' @ '', ''
     @ json_member ''generated_at'' ''not a date'' @ '', ''
     @ json_member ''expires_at'' ''2999-01-01T00:00:00.000Z'' @ ''}''"

definition sample_undated :: "(string \<times> jsval) list" where
  "sample_undated =
     [(''access_token'', JStr ''tok''),
      (''user_id'', JStr ''AB1234''),
      (''generated_at'', JStr ''not a date'')]"

definition undated_text :: string where
  "undated_text =
     ''{'' @ json_member ''access_token'' ''tok'' @ '', ''
     @ json_member ''user_id'' ''AB1234'' @ '', ''
     @ json_member ''generated_at'' ''not a date'' @ ''}''"

definition sample_soon :: "(string \<times> jsval) list" where
  "sample_soon =
     [(''access_token'', JStr ''tok''),
      (''user_id'', JStr ''AB1234''),
      (''generated_at'', JStr ''2024-01-01T00:00:00.000Z''),
      (''expires_at'', JStr ''soon'')]"

definition soon_text :: string where
  "soon_text =
     ''{'' @ json_member ''access_token'' ''tok'' @ '', ''
     @ json_member ''user_id'' ''AB1234'' @ '', ''
     @ json_member ''generated_at'' ''2024-01-01T00:00:00.000Z'' @ '', ''
     @ json_member ''expires_at'' ''soon'' @ ''}''"

definition sample_partial :: "(string \<times> jsval) list" where
  "sample_partial =
     [(''access_token'', JStr ''tok''),
      (''user_id'', JStr []),
      (''generated_at'', JStr ''2024-01-01T00:00:00.000Z'')]"

definition partial_text :: string where
  "partial_text =
     ''{'' @ json_member ''access_token'' ''tok'' @ '', ''
     @ json_member ''user_id'' [] @ '', ''
     @ json_member ''generated_at'' ''2024-01-01T00:00:00.000Z'' @ ''}''"

definition sample_runtime :: runtime where
  "sample_runtime =
     \<lparr>Date_value =
        (\<lambda>v. if v = JStr ''2024-01-01T00:00:00.000Z'' then Some 1704067200000
             else if v = JStr ''2999-01-01T00:00:00.000Z'' then Some 32472144000000
             else None),
      toISOString = (\<lambda>t. if t = 1704067200000 then ''2024-01-01T00:00:00.000Z''
                          else ''1970-01-01T00:00:00.000Z''),
      JSON_stringify = (\<lambda>v. if v = JObj sample_stored then sample_text else ''null''),
      JSON_parse =
        (\<lambda>s. if s = sample_text then Returns (JObj sample_stored)
             else if s = expiring_text then Returns (JObj sample_expiring)
             else if s = undated_text then Returns (JObj sample_undated)
             else if s = soon_text then Returns (JObj sample_soon)
             else if s = partial_text then Returns (JObj sample_partial)
             else Throws (ErrorInst ''Unexpected token'')),
      TypeError_message = ''Cannot read properties of null''\<rparr>"

text \<open>A token file with the given text, or none, on a file system that refuses nothing.\<close>

definition sample_fs :: "string option \<Rightarrow> filesystem" where
  "sample_fs c =
     \<lparr>dir_exists = True, content = c, mkdir_fault = None, write_fault = None,
      read_fault = None, unlink_fault = None\<rparr>"

text \<open>An \<^verbatim>\<open>OAuthServer\<close> as its constructor leaves it (\<^verbatim>\<open>server = null\<close>), before any flow.\<close>

definition sample_server :: flow where
  "sample_server =
     \<lparr>server = False, promise = Pending, timeoutId = Unset, shutdown_timers = 0,
      store = sample_fs None\<rparr>"

text \<open>A session exchange that accepts the request token \<open>abc\<close> and rejects any other.\<close>

definition sample_exchange :: "string \<Rightarrow> string \<Rightarrow> jsval outcome" where
  "sample_exchange requestToken apiSecret =
     (if requestToken = ''abc''
      then Returns (JObj [(''user_id'', JStr ''AB1234''),
                          (''user_name'', JStr ''Asha''),
                          (''access_token'', JStr ''tok''),
                          (''refresh_token'', JStr []),
                          (''login_time'', JStr ''2024-01-01 05:30:00'')])
      else Throws NonError)"

definition callback_url :: "(string \<times> string) list \<Rightarrow> url" where
  "callback_url q = \<lparr>pathname = ''/zerodha/auth/redirect'', searchParams = q\<rparr>"

definition success_url :: url where
  "success_url = callback_url [(''action'', ''login''), (''status'', ''success''), (''request_token'', ''abc'')]"

definition denied_url :: url where
  "denied_url = callback_url [(''status'', ''failure''), (''error_type'', ''access_denied'')]"

definition other_url :: url where
  "other_url = \<lparr>pathname = ''/favicon.ico'', searchParams = []\<rparr>"

section \<open>Properties of objects and of the token file\<close>

lemma read_prop_set_prop:
  "read_prop (JObj (set_prop k v ps)) k' = (if k' = k then v else read_prop (JObj ps) k')"
  by (induction ps) auto

lemma read_prop_nullish: "nullish v \<Longrightarrow> read_prop v k = JUndefined"
  by (auto simp: nullish_def)

lemma truthy_not_nullish: "truthy (read_prop v k) \<Longrightarrow> \<not> nullish v"
  using read_prop_nullish[of v k] by auto

lemma loadToken_Some_iff:
  "loadToken rt fs = Some v \<longleftrightarrow>
     (\<exists>data. content fs = Some data \<and> read_fault fs = None \<and> JSON_parse rt data = Returns v
        \<and> \<not> nullish v
        \<and> truthy (read_prop v ''access_token'') \<and> truthy (read_prop v ''user_id'')
        \<and> truthy (read_prop v ''generated_at''))"
  by (auto simp: loadToken_def loadToken_try_def split: option.splits outcome.splits)

lemma saveToken_ok:
  "dir_exists fs \<or> mkdir_fault fs = None \<Longrightarrow> write_fault fs = None \<Longrightarrow>
   saveToken rt now td fs =
     (Returns (), fs\<lparr>dir_exists := True,
        content := Some (JSON_stringify rt (JObj (completeTokenData rt now td)))\<rparr>)"
  by (auto simp: saveToken_def saveToken_try_def writeFileSync_def Let_def)

lemma saveToken_Returns:
  "saveToken rt now td fs = (Returns x, fs') \<Longrightarrow>
   content fs' = Some (JSON_stringify rt (JObj (completeTokenData rt now td)))"
  by (auto simp: saveToken_def saveToken_try_def writeFileSync_def Let_def
      split: if_splits option.splits)

lemma complete_literal:
  "completeTokenData rt now
     [(''access_token'', a), (''refresh_token'', b), (''user_id'', c), (''user_name'', d),
      (''generated_at'', JStr (toISOString rt now))] =
     [(''access_token'', a), (''refresh_token'', b), (''user_id'', c), (''user_name'', d),
      (''generated_at'', JStr (toISOString rt now))]"
  by (simp add: completeTokenData_def)

section \<open>Properties of the callback handler and of the flow\<close>

lemma fetch_other_path:
  "pathname u \<noteq> ''/zerodha/auth/redirect'' \<Longrightarrow>
   fetch rt gs sec now s u = (s, \<lparr>status = 200, body = ''Kite OAuth Server - Waiting for callback...''\<rparr>)"
  by (simp add: fetch_def)

lemma promise_cleanupAndResolve:
  "promise (cleanupAndResolve v s) = (if promise s = Pending then Resolved v else promise s)"
  by (simp add: cleanupAndResolve_def resolve_def)

lemma promise_cleanupAndReject:
  "promise (cleanupAndReject e s) = (if promise s = Pending then Rejected e else promise s)"
  by (simp add: cleanupAndReject_def reject_def)

lemma timeoutId_cleanupAndResolve:
  "timeoutId (cleanupAndResolve v s) = clearTimeout (timeoutId s)"
  by (simp add: cleanupAndResolve_def resolve_def)

lemma timeoutId_cleanupAndReject:
  "timeoutId (cleanupAndReject e s) = clearTimeout (timeoutId s)"
  by (simp add: cleanupAndReject_def reject_def)

lemma clearTimeout_not_Armed: "clearTimeout t \<noteq> Armed d"
  by (simp add: clearTimeout_def split: timer.splits)

lemma fetch_settled:
  "promise s \<noteq> Pending \<Longrightarrow> promise (fst (fetch rt gs sec now s u)) = promise s"
  by (simp add: fetch_def schedule_shutdown_def promise_cleanupAndResolve promise_cleanupAndReject
      split: prod.splits sum.splits)

lemma fetch_timer:
  "timeoutId (fst (fetch rt gs sec now s u)) =
     (if pathname u = ''/zerodha/auth/redirect'' then clearTimeout (timeoutId s) else timeoutId s)"
  by (simp add: fetch_def schedule_shutdown_def timeoutId_cleanupAndResolve timeoutId_cleanupAndReject
      split: prod.splits sum.splits)

lemma step_settled: "promise s \<noteq> Pending \<Longrightarrow> promise (step rt sec s e) = promise s"
  by (cases e) (simp_all add: fetch_settled timeout_callback_def stop_def promise_cleanupAndReject
      split: timer.splits)

lemma run_settled: "promise s \<noteq> Pending \<Longrightarrow> promise (run rt sec s es) = promise s"
  unfolding run_def
  by (induction es arbitrary: s) (simp_all add: step_settled)

lemma step_not_armed:
  "\<forall>d. timeoutId s \<noteq> Armed d \<Longrightarrow> \<forall>d. timeoutId (step rt sec s e) \<noteq> Armed d"
  by (cases e) (auto simp: fetch_timer clearTimeout_not_Armed stop_def split: timer.splits)

lemma run_not_armed:
  "\<forall>d. timeoutId s \<noteq> Armed d \<Longrightarrow> \<forall>d. timeoutId (run rt sec s es) \<noteq> Armed d"
  unfolding run_def
proof (induction es arbitrary: s)
  case Nil
  then show ?case by simp
next
  case (Cons e es)
  from Cons.prems have "\<forall>d. timeoutId (step rt sec s e) \<noteq> Armed d" by (rule step_not_armed)
  then show ?case using Cons.IH by simp
qed

lemma step_callback_not_armed:
  "callback_request e \<Longrightarrow> timeoutId (step rt sec s e) \<noteq> Armed d"
  by (cases e) (simp_all add: callback_request_def fetch_timer clearTimeout_not_Armed)

lemma step_idle:
  "\<not> callback_request e \<Longrightarrow> e \<noteq> TimeoutFires \<Longrightarrow>
   promise (step rt sec s e) = promise s \<and> timeoutId (step rt sec s e) = timeoutId s"
  by (cases e) (simp_all add: callback_request_def fetch_other_path stop_def)

lemma run_idle:
  "\<forall>e\<in>set es. \<not> callback_request e \<and> e \<noteq> TimeoutFires \<Longrightarrow>
   promise (run rt sec s es) = promise s \<and> timeoutId (run rt sec s es) = timeoutId s"
  unfolding run_def
proof (induction es arbitrary: s)
  case Nil
  then show ?case by simp
next
  case (Cons e es)
  then have "promise (step rt sec s e) = promise s \<and> timeoutId (step rt sec s e) = timeoutId s"
    using step_idle[of e rt sec s] by simp
  moreover have "promise (foldl (step rt sec) (step rt sec s e) es) = promise (step rt sec s e)
      \<and> timeoutId (foldl (step rt sec) (step rt sec s e) es) = timeoutId (step rt sec s e)"
    using Cons by simp
  ultimately show ?case by simp
qed

lemma timeout_fires:
  "promise s = Pending \<Longrightarrow> timeoutId s = Armed d \<Longrightarrow>
   promise (step rt sec s TimeoutFires) =
      Rejected (ErrorInst ''Authentication timeout - no callback received within 5 minutes'')
   \<and> \<not> server (step rt sec s TimeoutFires)
   \<and> timeoutId (step rt sec s TimeoutFires) = Fired"
  by (simp add: timeout_callback_def stop_def promise_cleanupAndReject timeoutId_cleanupAndReject clearTimeout_def cleanupAndReject_def reject_def)


lemma callback_try_Returns:
  assumes "callback_try rt gs sec now t fs = (Returns v, fs')"
  shows "\<exists>response. gs t sec = Returns response \<and> \<not> nullish response
     \<and> v = JObj [(''access_token'', read_prop response ''access_token''),
                 (''refresh_token'', read_prop response ''refresh_token''),
                 (''user_id'', read_prop response ''user_id''),
                 (''user_name'', read_prop response ''user_name''),
                 (''generated_at'', JStr (toISOString rt now))]
     \<and> content fs' = Some (JSON_stringify rt v)"
proof (cases "gs t sec")
  case (Throws e)
  with assms show ?thesis by (simp add: callback_try_def)
next
  case (Returns response)
  let ?td = "[(''access_token'', read_prop response ''access_token''),
                 (''refresh_token'', read_prop response ''refresh_token''),
                 (''user_id'', read_prop response ''user_id''),
                 (''user_name'', read_prop response ''user_name''),
                 (''generated_at'', JStr (toISOString rt now))]"
  from assms Returns have nn: "\<not> nullish response"
    by (auto simp: callback_try_def split: if_splits)
  obtain o1 fs1 where sv: "saveToken rt now ?td fs = (o1, fs1)" by (cases "saveToken rt now ?td fs")
  from assms Returns nn sv have "v = JObj ?td" "fs' = fs1" "\<exists>x. o1 = Returns x"
    by (auto simp: callback_try_def Let_def split: outcome.splits)
  moreover from this sv have "content fs1 = Some (JSON_stringify rt (JObj (completeTokenData rt now ?td)))"
    using saveToken_Returns by blast
  ultimately show ?thesis using Returns nn by (simp only: complete_literal) simp
qed

lemma handle_Inr:
  assumes "handleOAuthCallback rt gs sec now u fs = (Inr v, fs')"
  shows "\<exists>t. searchParams_get u ''request_token'' = Some t \<and> callback_try rt gs sec now t fs = (Returns v, fs')"
  using assms
  by (auto simp: handleOAuthCallback_def Let_def split: option.splits if_splits prod.splits outcome.splits)

lemma handle_bad:
  "searchParams_get u ''status'' \<noteq> Some ''success'' \<or> searchParams_get u ''request_token'' = None
     \<or> searchParams_get u ''request_token'' = Some [] \<Longrightarrow>
   handleOAuthCallback rt gs sec now u fs = (Inl (callback_error u), fs)"
  by (auto simp: handleOAuthCallback_def Let_def split: option.splits)

lemma fetch_callback:
  "pathname u = ''/zerodha/auth/redirect'' \<Longrightarrow> promise s = Pending \<Longrightarrow>
   handleOAuthCallback rt gs sec now u (store s) = (res, fs') \<Longrightarrow>
   promise (fst (fetch rt gs sec now s u)) = (case res of Inl m \<Rightarrow> Rejected (ErrorInst m) | Inr v \<Rightarrow> Resolved v)
   \<and> store (fst (fetch rt gs sec now s u)) = fs'
   \<and> status (snd (fetch rt gs sec now s u)) = (case res of Inl m \<Rightarrow> 500 | Inr v \<Rightarrow> 200)"
  by (simp add: fetch_def schedule_shutdown_def cleanupAndResolve_def cleanupAndReject_def resolve_def reject_def
      split: sum.splits)

lemma handle_Inr_shape:
  assumes "handleOAuthCallback rt gs sec now u fs = (Inr v, fs')"
  shows "read_prop v ''expires_at'' = JUndefined \<and> content fs' = Some (JSON_stringify rt v)"
proof -
  from handle_Inr[OF assms] obtain t where "callback_try rt gs sec now t fs = (Returns v, fs')"
    by blast
  from callback_try_Returns[OF this] show ?thesis by auto
qed

lemma fetch_resolves:
  assumes "promise (fst (fetch rt gs sec now s u)) = Resolved v"
  shows "promise s = Resolved v
     \<or> (promise s = Pending
        \<and> (\<exists>fs'. handleOAuthCallback rt gs sec now u (store s) = (Inr v, fs')
              \<and> store (fst (fetch rt gs sec now s u)) = fs'))"
proof (cases "promise s = Pending")
  case False
  with assms fetch_settled[of s rt gs sec now u] show ?thesis by simp
next
  case True
  show ?thesis
  proof (cases "pathname u = ''/zerodha/auth/redirect''")
    case False
    with assms True show ?thesis by (simp add: fetch_other_path)
  next
    case path: True
    obtain res fs' where h: "handleOAuthCallback rt gs sec now u (store s) = (res, fs')"
      by (cases "handleOAuthCallback rt gs sec now u (store s)")
    from fetch_callback[OF path True h] assms have "res = Inr v"
      "store (fst (fetch rt gs sec now s u)) = fs'"
      by (auto split: sum.splits)
    with h True show ?thesis by simp
  qed
qed

lemma step_resolved:
  assumes "promise (step rt sec s e) = Resolved v"
  shows "promise s = Resolved v \<or> read_prop v ''expires_at'' = JUndefined"
proof (cases e)
  case (Request u gs now)
  with assms have "promise (fst (fetch rt gs sec now s u)) = Resolved v" by simp
  from fetch_resolves[OF this] show ?thesis using handle_Inr_shape by blast
next
  case TimeoutFires
  with assms show ?thesis
    by (auto simp: timeout_callback_def stop_def promise_cleanupAndReject split: timer.splits if_splits)
next
  case ShutdownFires
  with assms show ?thesis by (auto simp: stop_def split: if_splits)
next
  case Stop
  with assms show ?thesis by (auto simp: stop_def split: if_splits)
qed

lemma run_resolved:
  "promise (run rt sec s es) = Resolved v \<Longrightarrow>
   promise s = Resolved v \<or> read_prop v ''expires_at'' = JUndefined"
  unfolding run_def
proof (induction es arbitrary: s)
  case Nil
  then show ?case by simp
next
  case (Cons e es)
  then have "promise (step rt sec s e) = Resolved v \<or> read_prop v ''expires_at'' = JUndefined"
    by simp
  then show ?case using step_resolved by blast
qed

section \<open>The sample data, evaluated\<close>

lemmas sample_texts = sample_text_def expiring_text_def undated_text_def soon_text_def
  partial_text_def json_member_def quoted_def

lemma sample_parse:
  "JSON_parse sample_runtime sample_text = Returns (JObj sample_stored)"
  "JSON_parse sample_runtime expiring_text = Returns (JObj sample_expiring)"
  "JSON_parse sample_runtime undated_text = Returns (JObj sample_undated)"
  "JSON_parse sample_runtime soon_text = Returns (JObj sample_soon)"
  "JSON_parse sample_runtime partial_text = Returns (JObj sample_partial)"
  "JSON_parse sample_runtime ''{'' = Throws (ErrorInst ''Unexpected token'')"
  "JSON_parse sample_runtime [] = Throws (ErrorInst ''Unexpected token'')"
  by (simp_all add: sample_runtime_def sample_texts)

lemma sample_load:
  "loadToken sample_runtime (sample_fs (Some sample_text)) = Some (JObj sample_stored)"
  "loadToken sample_runtime (sample_fs (Some expiring_text)) = Some (JObj sample_expiring)"
  "loadToken sample_runtime (sample_fs (Some undated_text)) = Some (JObj sample_undated)"
  "loadToken sample_runtime (sample_fs (Some soon_text)) = Some (JObj sample_soon)"
  "loadToken sample_runtime (sample_fs None) = None"
  by (simp_all add: loadToken_def loadToken_try_def sample_parse sample_fs_def nullish_def
      sample_stored_def sample_expiring_def sample_undated_def sample_soon_def)


lemma sample_dates:
  "Date_value sample_runtime (JStr ''2024-01-01T00:00:00.000Z'') = Some 1704067200000"
  "Date_value sample_runtime (JStr ''2999-01-01T00:00:00.000Z'') = Some 32472144000000"
  "Date_value sample_runtime (JStr ''not a date'') = None"
  "Date_value sample_runtime (JStr ''soon'') = None"
  "toISOString sample_runtime 1704067200000 = ''2024-01-01T00:00:00.000Z''"
  by (simp_all add: sample_runtime_def)

lemma sample_start:
  "startAuthFlow None sample_server =
     \<lparr>server = True, promise = Pending, timeoutId = Armed 300000, shutdown_timers = 0,
      store = sample_fs None\<rparr>"
  by (simp add: startAuthFlow_def sample_server_def)

lemma sample_urls:
  "pathname success_url = ''/zerodha/auth/redirect''"
  "searchParams_get success_url ''status'' = Some ''success''"
  "searchParams_get success_url ''request_token'' = Some ''abc''"
  "pathname denied_url = ''/zerodha/auth/redirect''"
  "searchParams_get denied_url ''status'' = Some ''failure''"
  "searchParams_get denied_url ''request_token'' = None"
  "searchParams_get denied_url ''error_type'' = Some ''access_denied''"
  "pathname (callback_url []) = ''/zerodha/auth/redirect''"
  "searchParams_get (callback_url []) k = None"
  "pathname other_url = ''/favicon.ico''"
  by (simp_all add: success_url_def denied_url_def other_url_def callback_url_def searchParams_get_def)

lemma sample_stringify: "JSON_stringify sample_runtime (JObj sample_stored) = sample_text"
  by (simp add: sample_runtime_def)

lemma sample_fetch_success:
  "fetch sample_runtime sample_exchange ''secret'' 1704067200000 (startAuthFlow None sample_server) success_url =
     (\<lparr>server = True, promise = Resolved (JObj sample_stored), timeoutId = Cancelled,
       shutdown_timers = 1, store = sample_fs (Some sample_text)\<rparr>,
      \<lparr>status = 200,
       body = check_mark @ '' Authentication successful! Token saved. You can close this window.''\<rparr>)"
proof -
  have c: "completeTokenData sample_runtime 1704067200000 sample_stored = sample_stored"
    by (simp add: completeTokenData_def sample_stored_def)
  have sv: "saveToken sample_runtime 1704067200000 sample_stored (sample_fs None)
      = (Returns (), sample_fs (Some sample_text))"
    by (simp add: saveToken_def saveToken_try_def writeFileSync_def c sample_stringify sample_fs_def)
  have ct: "callback_try sample_runtime sample_exchange ''secret'' 1704067200000 ''abc'' (sample_fs None)
      = (Returns (JObj sample_stored), sample_fs (Some sample_text))"
    using sv by (simp add: callback_try_def sample_exchange_def nullish_def sample_dates sample_stored_def)
  have h: "handleOAuthCallback sample_runtime sample_exchange ''secret'' 1704067200000 success_url (sample_fs None)
      = (Inr (JObj sample_stored), sample_fs (Some sample_text))"
    by (simp add: handleOAuthCallback_def sample_urls ct)
  show ?thesis
    by (simp add: fetch_def sample_urls sample_start h schedule_shutdown_def cleanupAndResolve_def
        resolve_def clearTimeout_def)
qed

section \<open>The claims\<close>

text \<open>
  C1. For a stored token record the validity check is true exactly when, if the record
  carries an explicit \<^verbatim>\<open>expires_at\<close> timestamp (a truthy value that is a valid date), the
  current time is strictly before it, and otherwise, if \<^verbatim>\<open>expires_at\<close> is absent (or
  falsy, as the empty string), the time elapsed since \<^verbatim>\<open>generated_at\<close> is strictly less
  than five hours, \<open>5 * 60 * 60 * 1000\<close> milliseconds. When \<^verbatim>\<open>loadToken\<close> gives no record,
  \<^verbatim>\<open>isTokenValid\<close> is false.
\<close>

theorem isTokenValid_iff:
  "(loadToken rt fs = Some td \<and> truthy (read_prop td ''expires_at'')
      \<and> Date_value rt (read_prop td ''expires_at'') = Some e
      \<longrightarrow> (isTokenValid rt now fs \<longleftrightarrow> now < e))
   \<and> (loadToken rt fs = Some td \<and> \<not> truthy (read_prop td ''expires_at'')
      \<and> Date_value rt (read_prop td ''generated_at'') = Some g
      \<longrightarrow> (isTokenValid rt now fs \<longleftrightarrow> now - g < 5 * 60 * 60 * 1000))
   \<and> (loadToken rt fs = None \<longrightarrow> \<not> isTokenValid rt now fs)"
  by (auto simp: isTokenValid_def validateTokenExpiry_def Let_def)

theorem isTokenValid_iff_witness:
  "isTokenValid sample_runtime 1704067200001 (sample_fs (Some expiring_text))
   \<and> \<not> isTokenValid sample_runtime 32472144000000 (sample_fs (Some expiring_text))
   \<and> isTokenValid sample_runtime 1704085199999 (sample_fs (Some sample_text))
   \<and> \<not> isTokenValid sample_runtime 1704085200000 (sample_fs (Some sample_text))
   \<and> \<not> isTokenValid sample_runtime 1704067200000 (sample_fs None)"
proof -
  have e: "truthy (read_prop (JObj sample_expiring) ''expires_at'')"
    "Date_value sample_runtime (read_prop (JObj sample_expiring) ''expires_at'') = Some 32472144000000"
    by (simp_all add: sample_expiring_def sample_dates)
  have g: "\<not> truthy (read_prop (JObj sample_stored) ''expires_at'')"
    "Date_value sample_runtime (read_prop (JObj sample_stored) ''generated_at'') = Some 1704067200000"
    by (simp_all add: sample_stored_def sample_dates)
  note a = isTokenValid_iff[where rt = sample_runtime and fs = "sample_fs (Some expiring_text)"
      and td = "JObj sample_expiring" and e = 32472144000000 and now = 1704067200001]
  note b = isTokenValid_iff[where rt = sample_runtime and fs = "sample_fs (Some expiring_text)"
      and td = "JObj sample_expiring" and e = 32472144000000 and now = 32472144000000]
  note c = isTokenValid_iff[where rt = sample_runtime and fs = "sample_fs (Some sample_text)"
      and td = "JObj sample_stored" and g = 1704067200000 and now = 1704085199999]
  note d = isTokenValid_iff[where rt = sample_runtime and fs = "sample_fs (Some sample_text)"
      and td = "JObj sample_stored" and g = 1704067200000 and now = 1704085200000]
  note n = isTokenValid_iff[where rt = sample_runtime and fs = "sample_fs None" and now = 1704067200000]
  from a b c d n show ?thesis
    by (simp add: sample_load e g del: read_prop.simps)
qed

text \<open>
  C2. In a pending flow, a request on the callback path with \<^verbatim>\<open>status=success\<close> and a
  non-empty \<^verbatim>\<open>request_token\<close>, whose session exchange returns a response object, resolves
  the promise with a record whose \<^verbatim>\<open>access_token\<close>, \<^verbatim>\<open>refresh_token\<close>, \<^verbatim>\<open>user_id\<close> and
  \<^verbatim>\<open>user_name\<close> are the response's and whose \<^verbatim>\<open>generated_at\<close> is the current time. The
  promise is resolved on a state whose token file already holds the record's text
  (\<^verbatim>\<open>saveToken\<close> runs before \<^verbatim>\<open>cleanupAndResolve\<close>), and the response has status 200.
  The token file must accept the write: \<^verbatim>\<open>saveToken\<close> throws otherwise.
\<close>

theorem oauth_success:
  assumes pend: "promise s = Pending"
    and path: "pathname u = ''/zerodha/auth/redirect''"
    and st: "searchParams_get u ''status'' = Some ''success''"
    and rq: "searchParams_get u ''request_token'' = Some t" "t \<noteq> []"
    and ex: "generateSession t apiSecret = Returns response" "\<not> nullish response"
    and dir: "dir_exists (store s) \<or> mkdir_fault (store s) = None"
    and wr: "write_fault (store s) = None"
  shows "\<exists>td fs' s' r. fetch rt generateSession apiSecret now s u = (s', r)
     \<and> s' = schedule_shutdown (cleanupAndResolve td (s\<lparr>store := fs'\<rparr>))
     \<and> content fs' = Some (JSON_stringify rt td)
     \<and> promise s' = Resolved td
     \<and> read_prop td ''access_token'' = read_prop response ''access_token''
     \<and> read_prop td ''refresh_token'' = read_prop response ''refresh_token''
     \<and> read_prop td ''user_id'' = read_prop response ''user_id''
     \<and> read_prop td ''user_name'' = read_prop response ''user_name''
     \<and> read_prop td ''generated_at'' = JStr (toISOString rt now)
     \<and> content (store s') = Some (JSON_stringify rt td)
     \<and> status r = 200"
proof -
  let ?td = "[(''access_token'', read_prop response ''access_token''),
                 (''refresh_token'', read_prop response ''refresh_token''),
                 (''user_id'', read_prop response ''user_id''),
                 (''user_name'', read_prop response ''user_name''),
                 (''generated_at'', JStr (toISOString rt now))]"
  let ?fs = "(store s)\<lparr>dir_exists := True, content := Some (JSON_stringify rt (JObj ?td))\<rparr>"
  let ?s' = "schedule_shutdown (cleanupAndResolve (JObj ?td) (s\<lparr>store := ?fs\<rparr>))"
  let ?r = "\<lparr>status = 200,
      body = check_mark @ '' Authentication successful! Token saved. You can close this window.''\<rparr>"
  have sv: "saveToken rt now ?td (store s) = (Returns (), ?fs)"
    using saveToken_ok[OF dir wr, of rt now ?td] by (simp only: complete_literal)
  have "callback_try rt generateSession apiSecret now t (store s) = (Returns (JObj ?td), ?fs)"
    using ex sv by (simp add: callback_try_def Let_def)
  then have h: "handleOAuthCallback rt generateSession apiSecret now u (store s) = (Inr (JObj ?td), ?fs)"
    using st rq by (simp add: handleOAuthCallback_def)
  have f: "fetch rt generateSession apiSecret now s u = (?s', ?r)"
    using path h by (simp add: fetch_def)
  have p: "promise ?s' = Resolved (JObj ?td)" "store ?s' = ?fs"
    using pend by (simp_all add: schedule_shutdown_def cleanupAndResolve_def resolve_def)
  show ?thesis
    unfolding f using p
    by (intro exI[of _ "JObj ?td"] exI[of _ ?fs] exI[of _ ?s'] exI[of _ ?r]) simp
qed

theorem oauth_success_witness:
  "\<exists>td. promise (fst (fetch sample_runtime sample_exchange ''secret'' 1704067200000
                        (startAuthFlow None sample_server) success_url)) = Resolved td
      \<and> read_prop td ''access_token'' = JStr ''tok''
      \<and> read_prop td ''refresh_token'' = JStr []
      \<and> read_prop td ''user_id'' = JStr ''AB1234''
      \<and> read_prop td ''user_name'' = JStr ''Asha''
      \<and> read_prop td ''generated_at'' = JStr ''2024-01-01T00:00:00.000Z''
      \<and> content (store (fst (fetch sample_runtime sample_exchange ''secret'' 1704067200000
                        (startAuthFlow None sample_server) success_url)))
          = Some (JSON_stringify sample_runtime td)
      \<and> status (snd (fetch sample_runtime sample_exchange ''secret'' 1704067200000
                        (startAuthFlow None sample_server) success_url)) = 200"
proof -
  let ?response = "JObj [(''user_id'', JStr ''AB1234''), (''user_name'', JStr ''Asha''),
      (''access_token'', JStr ''tok''), (''refresh_token'', JStr []),
      (''login_time'', JStr ''2024-01-01 05:30:00'')]"
  let ?s = "startAuthFlow None sample_server"
  have "\<exists>td fs' s' r. fetch sample_runtime sample_exchange ''secret'' 1704067200000 ?s success_url = (s', r)
     \<and> s' = schedule_shutdown (cleanupAndResolve td (?s\<lparr>store := fs'\<rparr>))
     \<and> content fs' = Some (JSON_stringify sample_runtime td)
     \<and> promise s' = Resolved td
     \<and> read_prop td ''access_token'' = read_prop ?response ''access_token''
     \<and> read_prop td ''refresh_token'' = read_prop ?response ''refresh_token''
     \<and> read_prop td ''user_id'' = read_prop ?response ''user_id''
     \<and> read_prop td ''user_name'' = read_prop ?response ''user_name''
     \<and> read_prop td ''generated_at'' = JStr (toISOString sample_runtime 1704067200000)
     \<and> content (store s') = Some (JSON_stringify sample_runtime td)
     \<and> status r = 200"
  proof (rule oauth_success[where t = "''abc''"])
    show "sample_exchange ''abc'' ''secret'' = Returns ?response"
      by (simp add: sample_exchange_def)
  qed (simp_all add: sample_start sample_urls nullish_def sample_fs_def)
  then obtain td s' r where
    f: "fetch sample_runtime sample_exchange ''secret'' 1704067200000 ?s success_url = (s', r)"
    and rest: "promise s' = Resolved td"
      "read_prop td ''access_token'' = JStr ''tok''"
      "read_prop td ''refresh_token'' = JStr []"
      "read_prop td ''user_id'' = JStr ''AB1234''"
      "read_prop td ''user_name'' = JStr ''Asha''"
      "read_prop td ''generated_at'' = JStr ''2024-01-01T00:00:00.000Z''"
      "content (store s') = Some (JSON_stringify sample_runtime td)"
      "status r = 200"
    by (auto simp: sample_dates)
  show ?thesis
    unfolding f using rest by (intro exI[of _ td]) simp
qed

text \<open>
  C3. \<^verbatim>\<open>startAuthFlow\<close> leaves the promise pending, the listener running and the timer
  armed with five minutes. As long as no request on the callback path is handled (other
  requests, \<^verbatim>\<open>stop()\<close> and shutdown timers may come), the flow stays pending, and when the
  timer's callback then runs, the promise is rejected with the fixed message and the
  listener is stopped in that same step. A settled promise keeps its outcome whatever
  events follow, callbacks and timers included. A request on the callback path settles
  the promise and cancels the timer: whatever follows, the timer is never armed again and
  its callback does not run (the event changes nothing). The model has no clock: the five
  minutes are the delay the timer is armed with, and \<open>TimeoutFires\<close> is the runtime running
  its callback.
\<close>

theorem timeout_settles_once:
  "(promise (startAuthFlow None s0) = Pending
      \<and> timeoutId (startAuthFlow None s0) = Armed (5 * 60 * 1000)
      \<and> server (startAuthFlow None s0))
   \<and> ((\<forall>e\<in>set es. \<not> callback_request e \<and> e \<noteq> TimeoutFires) \<longrightarrow>
        promise (run rt sec (startAuthFlow None s0) es) = Pending
        \<and> promise (step rt sec (run rt sec (startAuthFlow None s0) es) TimeoutFires) =
            Rejected (ErrorInst ''Authentication timeout - no callback received within 5 minutes'')
        \<and> \<not> server (step rt sec (run rt sec (startAuthFlow None s0) es) TimeoutFires))
   \<and> (promise s \<noteq> Pending \<longrightarrow> promise (run rt sec s es') = promise s)
   \<and> (callback_request e \<longrightarrow>
        promise (step rt sec s e) \<noteq> Pending
        \<and> (\<forall>d. timeoutId (run rt sec (step rt sec s e) es') \<noteq> Armed d)
        \<and> step rt sec (run rt sec (step rt sec s e) es') TimeoutFires = run rt sec (step rt sec s e) es')"
proof -
  let ?s1 = "startAuthFlow None s0"
  have start: "promise ?s1 = Pending" "timeoutId ?s1 = Armed (5 * 60 * 1000)" "server ?s1"
    by (simp_all add: startAuthFlow_def)
  have quiet: "promise (run rt sec ?s1 es) = Pending
        \<and> promise (step rt sec (run rt sec ?s1 es) TimeoutFires) =
            Rejected (ErrorInst ''Authentication timeout - no callback received within 5 minutes'')
        \<and> \<not> server (step rt sec (run rt sec ?s1 es) TimeoutFires)"
    if idle: "\<forall>e\<in>set es. \<not> callback_request e \<and> e \<noteq> TimeoutFires"
  proof -
    from run_idle[OF idle, of rt sec ?s1] start
    have "promise (run rt sec ?s1 es) = Pending" "timeoutId (run rt sec ?s1 es) = Armed (5 * 60 * 1000)"
      by simp_all
    then show ?thesis using timeout_fires by blast
  qed
  have once: "promise (run rt sec s es') = promise s" if "promise s \<noteq> Pending"
    using that by (rule run_settled)
  have cancelled: "promise (step rt sec s e) \<noteq> Pending
        \<and> (\<forall>d. timeoutId (run rt sec (step rt sec s e) es') \<noteq> Armed d)
        \<and> step rt sec (run rt sec (step rt sec s e) es') TimeoutFires = run rt sec (step rt sec s e) es'"
    if cb: "callback_request e"
  proof -
    from cb have na: "\<forall>d. timeoutId (step rt sec s e) \<noteq> Armed d"
      by (simp add: step_callback_not_armed)
    then have na': "\<forall>d. timeoutId (run rt sec (step rt sec s e) es') \<noteq> Armed d"
      by (rule run_not_armed)
    then have "step rt sec (run rt sec (step rt sec s e) es') TimeoutFires = run rt sec (step rt sec s e) es'"
      by (simp split: timer.splits)
    moreover from cb have "promise (step rt sec s e) \<noteq> Pending"
      by (cases e) (auto simp: callback_request_def fetch_def schedule_shutdown_def
          promise_cleanupAndResolve promise_cleanupAndReject split: prod.splits sum.splits)
    ultimately show ?thesis using na' by simp
  qed
  from start quiet once cancelled show ?thesis by blast
qed


theorem timeout_settles_once_witness:
  "promise (step sample_runtime ''secret''
      (run sample_runtime ''secret'' (startAuthFlow None sample_server)
         [Request other_url sample_exchange 1704067200000, Stop]) TimeoutFires)
     = Rejected (ErrorInst ''Authentication timeout - no callback received within 5 minutes'')
   \<and> \<not> server (step sample_runtime ''secret''
      (run sample_runtime ''secret'' (startAuthFlow None sample_server)
         [Request other_url sample_exchange 1704067200000, Stop]) TimeoutFires)
   \<and> promise (run sample_runtime ''secret''
        (step sample_runtime ''secret'' (startAuthFlow None sample_server) TimeoutFires)
        [Request success_url sample_exchange 1704067200000, TimeoutFires])
     = Rejected (ErrorInst ''Authentication timeout - no callback received within 5 minutes'')
   \<and> step sample_runtime ''secret''
        (run sample_runtime ''secret''
           (step sample_runtime ''secret'' (startAuthFlow None sample_server)
              (Request denied_url sample_exchange 1704067200000))
           [ShutdownFires]) TimeoutFires
     = run sample_runtime ''secret''
           (step sample_runtime ''secret'' (startAuthFlow None sample_server)
              (Request denied_url sample_exchange 1704067200000))
           [ShutdownFires]"
proof -
  let ?s1 = "startAuthFlow None sample_server"
  let ?t = "step sample_runtime ''secret'' ?s1 TimeoutFires"
  note th = timeout_settles_once[where rt = sample_runtime and sec = "''secret''" and ?s0.0 = sample_server
      and es = "[Request other_url sample_exchange 1704067200000, Stop]"
      and s = ?t and es' = "[Request success_url sample_exchange 1704067200000, TimeoutFires]"]
  note th2 = timeout_settles_once[where rt = sample_runtime and sec = "''secret''" and ?s0.0 = sample_server
      and es = "[]" and s = ?s1 and e = "Request denied_url sample_exchange 1704067200000"
      and es' = "[ShutdownFires]"]
  have idle: "\<forall>e\<in>set [Request other_url sample_exchange 1704067200000, Stop].
      \<not> callback_request e \<and> e \<noteq> TimeoutFires"
    by (simp add: callback_request_def sample_urls)
  have t: "promise ?t = Rejected (ErrorInst ''Authentication timeout - no callback received within 5 minutes'')"
    by (simp add: sample_start timeout_callback_def stop_def cleanupAndReject_def reject_def clearTimeout_def)
  have cb: "callback_request (Request denied_url sample_exchange 1704067200000)"
    by (simp add: callback_request_def sample_urls)
  from th idle have 1: "promise (step sample_runtime ''secret''
      (run sample_runtime ''secret'' ?s1 [Request other_url sample_exchange 1704067200000, Stop]) TimeoutFires)
     = Rejected (ErrorInst ''Authentication timeout - no callback received within 5 minutes'')"
    "\<not> server (step sample_runtime ''secret''
      (run sample_runtime ''secret'' ?s1 [Request other_url sample_exchange 1704067200000, Stop]) TimeoutFires)"
    by blast+
  from t have "promise ?t \<noteq> Pending" by (simp del: step.simps)
  with th have 2: "promise (run sample_runtime ''secret'' ?t
        [Request success_url sample_exchange 1704067200000, TimeoutFires]) = promise ?t"
    by blast
  from th2 cb have 3: "step sample_runtime ''secret''
        (run sample_runtime ''secret''
           (step sample_runtime ''secret'' ?s1 (Request denied_url sample_exchange 1704067200000))
           [ShutdownFires]) TimeoutFires
     = run sample_runtime ''secret''
           (step sample_runtime ''secret'' ?s1 (Request denied_url sample_exchange 1704067200000))
           [ShutdownFires]"
    by blast
  from 1 2 3 t show ?thesis by (simp del: step.simps)
qed

text \<open>
  C4. In a pending flow, a request on the callback path whose \<^verbatim>\<open>status\<close> is not
  \<^verbatim>\<open>success\<close> or whose \<^verbatim>\<open>request_token\<close> is missing or empty rejects the promise with an
  \<^verbatim>\<open>Error\<close> whose message is the \<^verbatim>\<open>error_type\<close> parameter, or \<^verbatim>\<open>OAuth callback failed\<close>
  when that parameter is missing (or empty); the response has status 500, which is not a
  2xx status, and the token file is as before.
\<close>

theorem oauth_failure:
  assumes pend: "promise s = Pending"
    and path: "pathname u = ''/zerodha/auth/redirect''"
    and bad: "searchParams_get u ''status'' \<noteq> Some ''success''
              \<or> searchParams_get u ''request_token'' = None
              \<or> searchParams_get u ''request_token'' = Some []"
  shows "\<exists>s' r. fetch rt generateSession apiSecret now s u = (s', r)
     \<and> (\<forall>e. searchParams_get u ''error_type'' = Some e \<and> e \<noteq> [] \<longrightarrow> promise s' = Rejected (ErrorInst e))
     \<and> (searchParams_get u ''error_type'' = None \<or> searchParams_get u ''error_type'' = Some []
          \<longrightarrow> promise s' = Rejected (ErrorInst ''OAuth callback failed''))
     \<and> status r = 500 \<and> \<not> (200 \<le> status r \<and> status r < 300)
     \<and> store s' = store s"
proof -
  from fetch_callback[OF path pend handle_bad[OF bad]]
  have "promise (fst (fetch rt generateSession apiSecret now s u)) = Rejected (ErrorInst (callback_error u))"
    "store (fst (fetch rt generateSession apiSecret now s u)) = store s"
    "status (snd (fetch rt generateSession apiSecret now s u)) = 500"
    by simp_all
  then show ?thesis
    by (intro exI[of _ "fst (fetch rt generateSession apiSecret now s u)"]
        exI[of _ "snd (fetch rt generateSession apiSecret now s u)"])
       (auto simp: callback_error_def)
qed

theorem oauth_failure_witness:
  "promise (fst (fetch sample_runtime sample_exchange ''secret'' 1704067200000
                   (startAuthFlow None sample_server) denied_url))
     = Rejected (ErrorInst ''access_denied'')
   \<and> status (snd (fetch sample_runtime sample_exchange ''secret'' 1704067200000
                   (startAuthFlow None sample_server) denied_url)) = 500
   \<and> store (fst (fetch sample_runtime sample_exchange ''secret'' 1704067200000
                   (startAuthFlow None sample_server) denied_url)) = sample_fs None
   \<and> promise (fst (fetch sample_runtime sample_exchange ''secret'' 1704067200000
                   (startAuthFlow None sample_server) (callback_url [])))
     = Rejected (ErrorInst ''OAuth callback failed'')"
proof -
  have a: "\<exists>s' r. fetch sample_runtime sample_exchange ''secret'' 1704067200000
                   (startAuthFlow None sample_server) denied_url = (s', r)
     \<and> (\<forall>e. searchParams_get denied_url ''error_type'' = Some e \<and> e \<noteq> [] \<longrightarrow> promise s' = Rejected (ErrorInst e))
     \<and> (searchParams_get denied_url ''error_type'' = None \<or> searchParams_get denied_url ''error_type'' = Some []
          \<longrightarrow> promise s' = Rejected (ErrorInst ''OAuth callback failed''))
     \<and> status r = 500 \<and> \<not> (200 \<le> status r \<and> status r < 300)
     \<and> store s' = store (startAuthFlow None sample_server)"
    by (rule oauth_failure) (simp_all add: sample_start sample_urls)
  have b: "\<exists>s' r. fetch sample_runtime sample_exchange ''secret'' 1704067200000
                   (startAuthFlow None sample_server) (callback_url []) = (s', r)
     \<and> (\<forall>e. searchParams_get (callback_url []) ''error_type'' = Some e \<and> e \<noteq> [] \<longrightarrow> promise s' = Rejected (ErrorInst e))
     \<and> (searchParams_get (callback_url []) ''error_type'' = None \<or> searchParams_get (callback_url []) ''error_type'' = Some []
          \<longrightarrow> promise s' = Rejected (ErrorInst ''OAuth callback failed''))
     \<and> status r = 500 \<and> \<not> (200 \<le> status r \<and> status r < 300)
     \<and> store s' = store (startAuthFlow None sample_server)"
    by (rule oauth_failure) (simp_all add: sample_start sample_urls)
  from a b show ?thesis
    by (auto simp: sample_urls sample_start)
qed

text \<open>
  C5. \<^verbatim>\<open>loadToken\<close> returns \<^verbatim>\<open>null\<close> (\<open>None\<close>) for a missing file, for a file that cannot be
  read, for a text that \<^verbatim>\<open>JSON.parse\<close> rejects, and for a parsed value in which
  \<^verbatim>\<open>access_token\<close>, \<^verbatim>\<open>user_id\<close> or \<^verbatim>\<open>generated_at\<close> is missing or the empty string. It
  returns the parsed value when the three are non-empty strings, and in general exactly
  when the file exists, is read and parsed and the three fields are truthy. Every
  exception of the \<^verbatim>\<open>try\<close> block ends in the \<^verbatim>\<open>catch\<close> clause, which returns \<^verbatim>\<open>null\<close>:
  the function has no exceptional result.
\<close>

theorem loadToken_absent_or_record:
  "(content fs = None \<longrightarrow> loadToken rt fs = None)
   \<and> (read_fault fs \<noteq> None \<longrightarrow> loadToken rt fs = None)
   \<and> (content fs = Some d \<and> JSON_parse rt d = Throws e \<longrightarrow> loadToken rt fs = None)
   \<and> (content fs = Some d \<and> JSON_parse rt d = Returns v
        \<and> k \<in> {''access_token'', ''user_id'', ''generated_at''}
        \<and> (read_prop v k = JUndefined \<or> read_prop v k = JStr [])
        \<longrightarrow> loadToken rt fs = None)
   \<and> (content fs = Some d \<and> read_fault fs = None \<and> JSON_parse rt d = Returns v
        \<and> read_prop v ''access_token'' = JStr a \<and> a \<noteq> []
        \<and> read_prop v ''user_id'' = JStr u \<and> u \<noteq> []
        \<and> read_prop v ''generated_at'' = JStr g \<and> g \<noteq> []
        \<longrightarrow> loadToken rt fs = Some v)
   \<and> (loadToken rt fs = Some v \<longleftrightarrow>
        (\<exists>d. content fs = Some d \<and> read_fault fs = None \<and> JSON_parse rt d = Returns v)
        \<and> truthy (read_prop v ''access_token'') \<and> truthy (read_prop v ''user_id'')
        \<and> truthy (read_prop v ''generated_at''))"
proof -
  have missing: "loadToken rt fs = None" if "content fs = None"
    using that by (simp add: loadToken_def loadToken_try_def)
  have unreadable: "loadToken rt fs = None" if "read_fault fs \<noteq> None"
    using that by (auto simp: loadToken_def loadToken_try_def split: option.splits)
  have unparsable: "loadToken rt fs = None" if "content fs = Some d" "JSON_parse rt d = Throws e"
    using that by (simp add: loadToken_def loadToken_try_def split: option.splits)
  have invalid: "loadToken rt fs = None"
    if "content fs = Some d" "JSON_parse rt d = Returns v"
      "k \<in> {''access_token'', ''user_id'', ''generated_at''}"
      "read_prop v k = JUndefined \<or> read_prop v k = JStr []"
  proof -
    from that(3,4) have "\<not> truthy (read_prop v ''access_token'') \<or> \<not> truthy (read_prop v ''user_id'')
        \<or> \<not> truthy (read_prop v ''generated_at'')"
      by (auto simp del: read_prop.simps)
    with that(1,2) show ?thesis
      by (auto simp: loadToken_def loadToken_try_def simp del: read_prop.simps split: option.splits)
  qed
  have iff: "loadToken rt fs = Some v \<longleftrightarrow>
        (\<exists>d. content fs = Some d \<and> read_fault fs = None \<and> JSON_parse rt d = Returns v)
        \<and> truthy (read_prop v ''access_token'') \<and> truthy (read_prop v ''user_id'')
        \<and> truthy (read_prop v ''generated_at'')"
    unfolding loadToken_Some_iff using truthy_not_nullish[of v "''access_token''"] by blast
  have loadable: "loadToken rt fs = Some v"
    if "content fs = Some d" "read_fault fs = None" "JSON_parse rt d = Returns v"
      "read_prop v ''access_token'' = JStr a" "a \<noteq> []"
      "read_prop v ''user_id'' = JStr u" "u \<noteq> []"
      "read_prop v ''generated_at'' = JStr g" "g \<noteq> []"
    unfolding iff using that by (simp del: read_prop.simps)
  from missing unreadable unparsable invalid loadable iff show ?thesis by blast
qed

theorem loadToken_absent_or_record_witness:
  "loadToken sample_runtime (sample_fs None) = None
   \<and> loadToken sample_runtime
        ((sample_fs (Some sample_text))\<lparr>read_fault := Some ''EACCES: permission denied''\<rparr>) = None
   \<and> loadToken sample_runtime (sample_fs (Some [])) = None
   \<and> loadToken sample_runtime (sample_fs (Some ''{'')) = None
   \<and> loadToken sample_runtime (sample_fs (Some partial_text)) = None
   \<and> loadToken sample_runtime (sample_fs (Some sample_text)) = Some (JObj sample_stored)"
proof -
  note a = loadToken_absent_or_record[where rt = sample_runtime and fs = "sample_fs None"]
  note b = loadToken_absent_or_record[where rt = sample_runtime
      and fs = "(sample_fs (Some sample_text))\<lparr>read_fault := Some ''EACCES: permission denied''\<rparr>"]
  note c = loadToken_absent_or_record[where rt = sample_runtime and fs = "sample_fs (Some [])"
      and d = "[]" and e = "ErrorInst ''Unexpected token''"]
  note d = loadToken_absent_or_record[where rt = sample_runtime and fs = "sample_fs (Some ''{'')"
      and d = "''{''" and e = "ErrorInst ''Unexpected token''"]
  note e = loadToken_absent_or_record[where rt = sample_runtime and fs = "sample_fs (Some partial_text)"
      and d = partial_text and v = "JObj sample_partial" and k = "''user_id''"]
  note f = loadToken_absent_or_record[where rt = sample_runtime and fs = "sample_fs (Some sample_text)"
      and d = sample_text and v = "JObj sample_stored" and a = "''tok''" and u = "''AB1234''"
      and g = "''2024-01-01T00:00:00.000Z''"]
  have p: "read_prop (JObj sample_partial) ''user_id'' = JStr []"
    by (simp add: sample_partial_def)
  have r: "read_prop (JObj sample_stored) ''access_token'' = JStr ''tok''"
    "read_prop (JObj sample_stored) ''user_id'' = JStr ''AB1234''"
    "read_prop (JObj sample_stored) ''generated_at'' = JStr ''2024-01-01T00:00:00.000Z''"
    by (simp_all add: sample_stored_def)
  have fsx: "content (sample_fs c) = c" "read_fault (sample_fs c) = None" for c
    by (simp_all add: sample_fs_def)
  from a have 1: "loadToken sample_runtime (sample_fs None) = None" by (simp add: fsx)
  from b have 2: "loadToken sample_runtime
        ((sample_fs (Some sample_text))\<lparr>read_fault := Some ''EACCES: permission denied''\<rparr>) = None"
    by simp
  from c have 3: "loadToken sample_runtime (sample_fs (Some [])) = None"
    by (simp add: fsx sample_parse)
  from d have 4: "loadToken sample_runtime (sample_fs (Some ''{'')) = None"
    by (simp add: fsx sample_parse)
  from e have 5: "loadToken sample_runtime (sample_fs (Some partial_text)) = None"
    by (simp add: fsx sample_parse p del: read_prop.simps)
  from f have 6: "loadToken sample_runtime (sample_fs (Some sample_text)) = Some (JObj sample_stored)"
    by (simp add: fsx sample_parse r del: read_prop.simps)
  from 1 2 3 4 5 6 show ?thesis by simp
qed

text \<open>
  C6. For a record whose \<^verbatim>\<open>access_token\<close> and \<^verbatim>\<open>user_id\<close> are non-empty strings and whose
  \<^verbatim>\<open>generated_at\<close> is absent or a non-empty string, \<^verbatim>\<open>saveToken\<close> returns and a following
  \<^verbatim>\<open>loadToken\<close> returns a record with the same \<^verbatim>\<open>access_token\<close>, \<^verbatim>\<open>refresh_token\<close>,
  \<^verbatim>\<open>user_id\<close>, \<^verbatim>\<open>user_name\<close> and \<^verbatim>\<open>expires_at\<close>, and with the saved \<^verbatim>\<open>generated_at\<close>, or
  the current time when it was absent. This needs the file system to accept the write
  and the read, and the runtime's \<^verbatim>\<open>JSON.parse\<close> to give back the token fields of what
  \<^verbatim>\<open>JSON.stringify\<close> wrote and its \<^verbatim>\<open>toISOString\<close> to be non-empty.
\<close>

theorem saveToken_loadToken_roundtrip:
  assumes acc: "read_prop (JObj td) ''access_token'' = JStr a" "a \<noteq> []"
    and uid: "read_prop (JObj td) ''user_id'' = JStr u" "u \<noteq> []"
    and gen: "read_prop (JObj td) ''generated_at'' = JUndefined
              \<or> (\<exists>g. read_prop (JObj td) ''generated_at'' = JStr g \<and> g \<noteq> [])"
    and dir: "dir_exists fs \<or> mkdir_fault fs = None"
    and wr: "write_fault fs = None"
    and rd: "read_fault fs = None"
    and iso: "toISOString rt now \<noteq> []"
    and json: "json_keeps_fields rt (JObj (completeTokenData rt now td))"
  shows "\<exists>fs' w. saveToken rt now td fs = (Returns (), fs') \<and> loadToken rt fs' = Some w
           \<and> read_prop w ''access_token'' = read_prop (JObj td) ''access_token''
           \<and> read_prop w ''refresh_token'' = read_prop (JObj td) ''refresh_token''
           \<and> read_prop w ''user_id'' = read_prop (JObj td) ''user_id''
           \<and> read_prop w ''user_name'' = read_prop (JObj td) ''user_name''
           \<and> read_prop w ''expires_at'' = read_prop (JObj td) ''expires_at''
           \<and> read_prop w ''generated_at'' =
               (if read_prop (JObj td) ''generated_at'' = JUndefined
                then JStr (toISOString rt now)
                else read_prop (JObj td) ''generated_at'')"
proof -
  let ?c = "JObj (completeTokenData rt now td)"
  let ?fs = "fs\<lparr>dir_exists := True, content := Some (JSON_stringify rt ?c)\<rparr>"
  from json obtain w where w: "JSON_parse rt (JSON_stringify rt ?c) = Returns w"
    and same: "list_all (\<lambda>k. read_prop w k = read_prop ?c k) token_fields"
    by (auto simp: json_keeps_fields_def split: outcome.splits)
  have c: "read_prop ?c k = (if k = ''generated_at''
       then (if truthy (read_prop (JObj td) ''generated_at'') then read_prop (JObj td) ''generated_at''
             else JStr (toISOString rt now))
       else read_prop (JObj td) k)" for k
    unfolding completeTokenData_def by (simp only: read_prop_set_prop)
  have g: "read_prop ?c ''generated_at'' =
       (if read_prop (JObj td) ''generated_at'' = JUndefined then JStr (toISOString rt now)
        else read_prop (JObj td) ''generated_at'')"
    using gen by (auto simp: c simp del: read_prop.simps)
  have tg: "truthy (read_prop ?c ''generated_at'')"
    using gen iso by (auto simp: g simp del: read_prop.simps)
  have fields: "read_prop w ''access_token'' = read_prop (JObj td) ''access_token''"
    "read_prop w ''refresh_token'' = read_prop (JObj td) ''refresh_token''"
    "read_prop w ''user_id'' = read_prop (JObj td) ''user_id''"
    "read_prop w ''user_name'' = read_prop (JObj td) ''user_name''"
    "read_prop w ''expires_at'' = read_prop (JObj td) ''expires_at''"
    "read_prop w ''generated_at'' = read_prop ?c ''generated_at''"
    using same by (simp_all add: token_fields_def c del: read_prop.simps)
  have nn: "\<not> nullish w"
    using fields(1) acc read_prop_nullish[of w "''access_token''"] by (auto simp del: read_prop.simps)
  have "loadToken rt ?fs = Some w"
    unfolding loadToken_Some_iff using w rd nn fields acc uid tg by (simp del: read_prop.simps)
  moreover have "saveToken rt now td fs = (Returns (), ?fs)"
    using dir wr by (rule saveToken_ok)
  ultimately show ?thesis using fields g by (intro exI[of _ ?fs] exI[of _ w]) (simp del: read_prop.simps)
qed



theorem saveToken_loadToken_roundtrip_witness:
  "\<exists>fs' w. saveToken sample_runtime 1704067200000 sample_token (sample_fs None) = (Returns (), fs')
      \<and> loadToken sample_runtime fs' = Some w
      \<and> read_prop w ''access_token'' = JStr ''tok''
      \<and> read_prop w ''refresh_token'' = JStr []
      \<and> read_prop w ''user_id'' = JStr ''AB1234''
      \<and> read_prop w ''user_name'' = JStr ''Asha''
      \<and> read_prop w ''expires_at'' = JUndefined
      \<and> read_prop w ''generated_at'' = JStr ''2024-01-01T00:00:00.000Z''"
proof -
  have c: "completeTokenData sample_runtime 1704067200000 sample_token = sample_stored"
    by (simp add: completeTokenData_def sample_token_def sample_stored_def sample_dates)
  have j: "json_keeps_fields sample_runtime (JObj (completeTokenData sample_runtime 1704067200000 sample_token))"
    unfolding c by (simp add: json_keeps_fields_def sample_runtime_def token_fields_def)
  have r: "read_prop (JObj sample_token) ''access_token'' = JStr ''tok''"
    "read_prop (JObj sample_token) ''refresh_token'' = JStr []"
    "read_prop (JObj sample_token) ''user_id'' = JStr ''AB1234''"
    "read_prop (JObj sample_token) ''user_name'' = JStr ''Asha''"
    "read_prop (JObj sample_token) ''expires_at'' = JUndefined"
    "read_prop (JObj sample_token) ''generated_at'' = JUndefined"
    by (simp_all add: sample_token_def)
  have "\<exists>fs' w. saveToken sample_runtime 1704067200000 sample_token (sample_fs None) = (Returns (), fs')
      \<and> loadToken sample_runtime fs' = Some w
      \<and> read_prop w ''access_token'' = read_prop (JObj sample_token) ''access_token''
      \<and> read_prop w ''refresh_token'' = read_prop (JObj sample_token) ''refresh_token''
      \<and> read_prop w ''user_id'' = read_prop (JObj sample_token) ''user_id''
      \<and> read_prop w ''user_name'' = read_prop (JObj sample_token) ''user_name''
      \<and> read_prop w ''expires_at'' = read_prop (JObj sample_token) ''expires_at''
      \<and> read_prop w ''generated_at'' =
               (if read_prop (JObj sample_token) ''generated_at'' = JUndefined
                then JStr (toISOString sample_runtime 1704067200000)
                else read_prop (JObj sample_token) ''generated_at'')"
  proof (rule saveToken_loadToken_roundtrip[where a = "''tok''" and u = "''AB1234''"])
    show "read_prop (JObj sample_token) ''access_token'' = JStr ''tok''" by (rule r)
    show "read_prop (JObj sample_token) ''user_id'' = JStr ''AB1234''" by (rule r)
    show "read_prop (JObj sample_token) ''generated_at'' = JUndefined
        \<or> (\<exists>g. read_prop (JObj sample_token) ''generated_at'' = JStr g \<and> g \<noteq> [])"
      using r(6) by (simp del: read_prop.simps)
    show "json_keeps_fields sample_runtime (JObj (completeTokenData sample_runtime 1704067200000 sample_token))"
      by (rule j)
  qed (simp_all add: sample_fs_def sample_dates)
  then show ?thesis by (simp add: r sample_dates del: read_prop.simps)
qed


text \<open>
  C7. \<^verbatim>\<open>clearToken\<close> returns without error and changes nothing when the file is absent;
  it removes the file when it is present and \<^verbatim>\<open>unlinkSync\<close> does not throw. After a call
  that returned, the file is absent, a second call returns too and leaves the same file
  system, and \<^verbatim>\<open>loadToken\<close> returns \<^verbatim>\<open>null\<close>.
\<close>

theorem clearToken_idempotent:
  "(content fs = None \<longrightarrow> clearToken fs = (Returns (), fs))
   \<and> (content fs = Some d \<and> unlink_fault fs = None
        \<longrightarrow> clearToken fs = (Returns (), fs\<lparr>content := None\<rparr>))
   \<and> (clearToken fs = (Returns (), fs')
        \<longrightarrow> content fs' = None \<and> clearToken fs' = (Returns (), fs') \<and> loadToken rt fs' = None)"
  by (auto simp: clearToken_def loadToken_def loadToken_try_def split: option.splits)

theorem clearToken_idempotent_witness:
  "clearToken (sample_fs (Some sample_text)) = (Returns (), sample_fs None)
   \<and> clearToken (sample_fs None) = (Returns (), sample_fs None)
   \<and> fst (clearToken (snd (clearToken (sample_fs (Some sample_text))))) = Returns ()
   \<and> snd (clearToken (snd (clearToken (sample_fs (Some sample_text)))))
       = snd (clearToken (sample_fs (Some sample_text)))
   \<and> loadToken sample_runtime (snd (clearToken (sample_fs (Some sample_text)))) = None"
proof -
  have fsx: "content (sample_fs c) = c" "unlink_fault (sample_fs c) = None"
    "(sample_fs c)\<lparr>content := None\<rparr> = sample_fs None" for c
    by (simp_all add: sample_fs_def)
  note a = clearToken_idempotent[where fs = "sample_fs (Some sample_text)" and d = sample_text
      and fs' = "sample_fs None" and rt = sample_runtime]
  note b = clearToken_idempotent[where fs = "sample_fs None" and fs' = "sample_fs None" and rt = sample_runtime]
  from a have 1: "clearToken (sample_fs (Some sample_text)) = (Returns (), sample_fs None)"
    by (simp add: fsx)
  from b have 2: "clearToken (sample_fs None) = (Returns (), sample_fs None)"
    by (simp add: fsx)
  from a 1 have 3: "loadToken sample_runtime (sample_fs None) = None" by simp
  from 1 2 3 show ?thesis by simp
qed

text \<open>
  C8. A request on any path other than the callback path is answered with the static
  waiting text (status 200) and changes nothing: the promise, the token file, the timer,
  the listener and the pending shutdown timers are as before, in a pending flow as in
  any other.
\<close>

theorem other_path_waiting:
  assumes "pathname u \<noteq> ''/zerodha/auth/redirect''"
  shows "\<exists>s' r. fetch rt generateSession apiSecret now s u = (s', r)
     \<and> r = \<lparr>status = 200, body = ''Kite OAuth Server - Waiting for callback...''\<rparr>
     \<and> promise s' = promise s \<and> store s' = store s \<and> timeoutId s' = timeoutId s
     \<and> server s' = server s \<and> shutdown_timers s' = shutdown_timers s \<and> s' = s"
  using assms by (simp add: fetch_def)

theorem other_path_waiting_witness:
  "fetch sample_runtime sample_exchange ''secret'' 1704067200000 (startAuthFlow None sample_server) other_url
     = (startAuthFlow None sample_server,
        \<lparr>status = 200, body = ''Kite OAuth Server - Waiting for callback...''\<rparr>)"
proof -
  have "\<exists>s' r. fetch sample_runtime sample_exchange ''secret'' 1704067200000
           (startAuthFlow None sample_server) other_url = (s', r)
     \<and> r = \<lparr>status = 200, body = ''Kite OAuth Server - Waiting for callback...''\<rparr>
     \<and> promise s' = promise (startAuthFlow None sample_server)
     \<and> store s' = store (startAuthFlow None sample_server)
     \<and> timeoutId s' = timeoutId (startAuthFlow None sample_server)
     \<and> server s' = server (startAuthFlow None sample_server)
     \<and> shutdown_timers s' = shutdown_timers (startAuthFlow None sample_server)
     \<and> s' = startAuthFlow None sample_server"
    by (rule other_path_waiting) (simp add: sample_urls)
  then show ?thesis by auto
qed

text \<open>
  C9, as the code has it. The timestamp that the expiry computation consults is
  \<^verbatim>\<open>expires_at\<close> when that field is truthy, and \<^verbatim>\<open>generated_at\<close> otherwise. When the
  consulted timestamp is not a valid date, \<^verbatim>\<open>isTokenValid\<close> is false. The computation
  raises nothing: every comparison with an Invalid Date is false.
\<close>

theorem invalid_timestamp_expired:
  "(loadToken rt fs = Some td \<and> truthy (read_prop td ''expires_at'')
      \<and> Date_value rt (read_prop td ''expires_at'') = None
      \<longrightarrow> \<not> isTokenValid rt now fs)
   \<and> (loadToken rt fs = Some td \<and> \<not> truthy (read_prop td ''expires_at'')
      \<and> Date_value rt (read_prop td ''generated_at'') = None
      \<longrightarrow> \<not> isTokenValid rt now fs)"
  by (simp add: isTokenValid_def validateTokenExpiry_def del: read_prop.simps)

theorem invalid_timestamp_expired_witness:
  "\<not> isTokenValid sample_runtime 1704067200000 (sample_fs (Some soon_text))
   \<and> \<not> isTokenValid sample_runtime 1704067200000 (sample_fs (Some undated_text))"
proof -
  have e: "truthy (read_prop (JObj sample_soon) ''expires_at'')"
    "Date_value sample_runtime (read_prop (JObj sample_soon) ''expires_at'') = None"
    by (simp_all add: sample_soon_def sample_dates)
  have g: "\<not> truthy (read_prop (JObj sample_undated) ''expires_at'')"
    "Date_value sample_runtime (read_prop (JObj sample_undated) ''generated_at'') = None"
    by (simp_all add: sample_undated_def sample_dates)
  note a = invalid_timestamp_expired[where rt = sample_runtime and fs = "sample_fs (Some soon_text)"
      and td = "JObj sample_soon" and now = 1704067200000]
  note b = invalid_timestamp_expired[where rt = sample_runtime and fs = "sample_fs (Some undated_text)"
      and td = "JObj sample_undated" and now = 1704067200000]
  from a b show ?thesis
    by (simp add: sample_load e g del: read_prop.simps)
qed

text \<open>
  A stored record whose \<^verbatim>\<open>generated_at\<close> is not a date and whose \<^verbatim>\<open>expires_at\<close> lies in
  the future is valid: \<^verbatim>\<open>generated_at\<close> is not looked at.
\<close>

theorem unparsable_generated_at_counterexample:
  "loadToken sample_runtime (sample_fs (Some expiring_text)) = Some (JObj sample_expiring)
   \<and> read_prop (JObj sample_expiring) ''generated_at'' = JStr ''not a date''
   \<and> Date_value sample_runtime (JStr ''not a date'') = None
   \<and> isTokenValid sample_runtime 1704067200000 (sample_fs (Some expiring_text))"
  by (simp add: sample_load sample_dates isTokenValid_def validateTokenExpiry_def sample_expiring_def)

text \<open>
  C10. Whatever events a flow sees after \<^verbatim>\<open>startAuthFlow\<close>, a record that its promise is
  resolved with has no \<^verbatim>\<open>expires_at\<close>, and its validity is that of the five-hour window
  on \<^verbatim>\<open>generated_at\<close>. The same holds for the file that the resolving request wrote, when
  \<^verbatim>\<open>JSON.parse\<close> gives back the token fields of what \<^verbatim>\<open>JSON.stringify\<close> wrote: the loaded
  record has no \<^verbatim>\<open>expires_at\<close> and \<^verbatim>\<open>isTokenValid\<close> is decided by the window.
\<close>

theorem oauth_token_window:
  "(promise (run rt sec (startAuthFlow listen_fault s0) es) = Resolved td
      \<longrightarrow> read_prop td ''expires_at'' = JUndefined
          \<and> (validateTokenExpiry rt now' td \<longleftrightarrow>
               (\<exists>g. Date_value rt (read_prop td ''generated_at'') = Some g
                    \<and> now' - g < 5 * 60 * 60 * 1000)))
   \<and> (promise s = Pending
        \<and> promise (fst (fetch rt generateSession sec now s u)) = Resolved td
        \<and> json_keeps_fields rt td
        \<and> loadToken rt (store (fst (fetch rt generateSession sec now s u))) = Some w
      \<longrightarrow> read_prop w ''expires_at'' = JUndefined
          \<and> (isTokenValid rt now' (store (fst (fetch rt generateSession sec now s u))) \<longleftrightarrow>
               (\<exists>g. Date_value rt (read_prop w ''generated_at'') = Some g
                    \<and> now' - g < 5 * 60 * 60 * 1000)))"
proof -
  have window: "validateTokenExpiry rt now' x \<longleftrightarrow>
       (\<exists>g. Date_value rt (read_prop x ''generated_at'') = Some g \<and> now' - g < 5 * 60 * 60 * 1000)"
    if "read_prop x ''expires_at'' = JUndefined" for x
    using that by (auto simp: validateTokenExpiry_def Let_def simp del: read_prop.simps split: option.splits)
  have first: "read_prop td ''expires_at'' = JUndefined"
    if "promise (run rt sec (startAuthFlow listen_fault s0) es) = Resolved td"
  proof -
    have "promise (startAuthFlow listen_fault s0) \<noteq> Resolved td"
      by (simp add: startAuthFlow_def split: option.splits)
    with run_resolved[OF that] show ?thesis by simp
  qed
  have second: "read_prop w ''expires_at'' = JUndefined
          \<and> (isTokenValid rt now' (store (fst (fetch rt generateSession sec now s u))) \<longleftrightarrow>
               (\<exists>g. Date_value rt (read_prop w ''generated_at'') = Some g
                    \<and> now' - g < 5 * 60 * 60 * 1000))"
    if pend: "promise s = Pending"
      and res: "promise (fst (fetch rt generateSession sec now s u)) = Resolved td"
      and json: "json_keeps_fields rt td"
      and load: "loadToken rt (store (fst (fetch rt generateSession sec now s u))) = Some w"
  proof -
    let ?fs = "store (fst (fetch rt generateSession sec now s u))"
    from fetch_resolves[OF res] pend obtain fs' where
      "handleOAuthCallback rt generateSession sec now u (store s) = (Inr td, fs')" "?fs = fs'"
      by auto
    with handle_Inr_shape have td: "read_prop td ''expires_at'' = JUndefined"
      and stored: "content ?fs = Some (JSON_stringify rt td)" by auto
    from load stored have "JSON_parse rt (JSON_stringify rt td) = Returns w"
      unfolding loadToken_Some_iff by auto
    with json have "read_prop w ''expires_at'' = read_prop td ''expires_at''"
      by (simp add: json_keeps_fields_def token_fields_def del: read_prop.simps)
    with td have w: "read_prop w ''expires_at'' = JUndefined" by simp
    from load have "isTokenValid rt now' ?fs = validateTokenExpiry rt now' w"
      by (simp add: isTokenValid_def)
    with window[OF w] w show ?thesis by simp
  qed
  from first window second show ?thesis by blast
qed

theorem oauth_token_window_witness:
  "promise (run sample_runtime ''secret'' (startAuthFlow None sample_server)
              [Request success_url sample_exchange 1704067200000]) = Resolved (JObj sample_stored)
   \<and> read_prop (JObj sample_stored) ''expires_at'' = JUndefined
   \<and> validateTokenExpiry sample_runtime 1704085199999 (JObj sample_stored)
   \<and> \<not> validateTokenExpiry sample_runtime 1704085200000 (JObj sample_stored)
   \<and> isTokenValid sample_runtime 1704085199999
        (store (fst (fetch sample_runtime sample_exchange ''secret'' 1704067200000
                      (startAuthFlow None sample_server) success_url)))
   \<and> \<not> isTokenValid sample_runtime 1704085200000
        (store (fst (fetch sample_runtime sample_exchange ''secret'' 1704067200000
                      (startAuthFlow None sample_server) success_url)))"
proof -
  let ?s1 = "startAuthFlow None sample_server"
  let ?f = "fetch sample_runtime sample_exchange ''secret'' 1704067200000 ?s1 success_url"
  have r: "promise (run sample_runtime ''secret'' ?s1 [Request success_url sample_exchange 1704067200000])
      = Resolved (JObj sample_stored)"
    by (simp add: run_def sample_fetch_success)
  have g: "Date_value sample_runtime (read_prop (JObj sample_stored) ''generated_at'') = Some 1704067200000"
    by (simp add: sample_stored_def sample_dates)
  have p0: "promise ?s1 = Pending"
    by (simp add: sample_start)
  have p: "promise (fst ?f) = Resolved (JObj sample_stored)"
    "loadToken sample_runtime (store (fst ?f)) = Some (JObj sample_stored)"
    by (simp_all add: sample_fetch_success sample_load)
  have j: "json_keeps_fields sample_runtime (JObj sample_stored)"
    by (simp add: json_keeps_fields_def sample_runtime_def token_fields_def)
  note a = oauth_token_window[where rt = sample_runtime and sec = "''secret''" and listen_fault = None
      and ?s0.0 = sample_server and es = "[Request success_url sample_exchange 1704067200000]"
      and td = "JObj sample_stored" and now' = 1704085199999 and s = ?s1
      and generateSession = sample_exchange and now = 1704067200000 and u = success_url
      and w = "JObj sample_stored"]
  note b = oauth_token_window[where rt = sample_runtime and sec = "''secret''" and listen_fault = None
      and ?s0.0 = sample_server and es = "[Request success_url sample_exchange 1704067200000]"
      and td = "JObj sample_stored" and now' = 1704085200000 and s = ?s1
      and generateSession = sample_exchange and now = 1704067200000 and u = success_url
      and w = "JObj sample_stored"]
  from a b r p0 p j show ?thesis
    by (simp add: g del: read_prop.simps)
qed

end
